theory Spec2Isabelle
  imports Complex_Main
begin

section \<open>Data model\<close>

text \<open>
  The incident lifecycle engine of the backend: \<^verbatim>\<open>services/incident.service.ts\<close>,
  \<^verbatim>\<open>utils/distance.ts\<close>, \<^verbatim>\<open>utils/duplicateDetector.ts\<close>, \<^verbatim>\<open>config/cloudinary.ts\<close>,
  \<^verbatim>\<open>middleware/error.middleware.ts\<close>, \<^verbatim>\<open>controllers/incident.controller.ts\<close> and
  \<^verbatim>\<open>validations/incident.schema.ts\<close>.

  JavaScript numbers are modelled as reals (coordinates, distances, configuration values)
  and as integers (millisecond timestamps, counters): rounding of doubles, NaN and the
  infinities are outside the model. Strings are ASCII character lists.
\<close>

datatype Severity = LOW | MEDIUM | HIGH

datatype IncidentStatus = REPORTED | VERIFIED | IN_PROGRESS | RESOLVED | FLAGGED

record Incident =
  id' :: string
  incidentType :: string
  description :: string
  latitude :: real
  longitude :: real
  severity :: Severity
  status :: IncidentStatus
  upvoteCount :: int
  mediaUrl :: "string option"
  createdAt :: int
  updatedAt :: int

record Vote =
  vote_userId :: string
  vote_incidentId :: string

record AdminNote =
  note_incidentId :: string
  note_userId :: string
  note_text :: string

text \<open>The tables of the relational store; \<open>users\<close> holds the ids of the existing users.\<close>

record Store =
  incidents :: "Incident list"
  votes :: "Vote list"
  adminNotes :: "AdminNote list"
  users :: "string list"

text \<open>
  The errors a request can end with: the classes \<^verbatim>\<open>errorHandler\<close> tells apart.
  \<open>PrismaClientKnownRequestError code target\<close> carries \<^verbatim>\<open>code\<close> and \<^verbatim>\<open>meta.target\<close>.
\<close>

datatype error =
    ZodError "string list"
  | AppError string nat
  | PrismaClientKnownRequestError string "string list"
  | JsonWebTokenError
  | TokenExpiredError
  | Error string

text \<open>The configuration of \<^verbatim>\<open>config/env.ts\<close> that the engine reads.\<close>

datatype NodeEnv = development | production | test

record Env =
  NODE_ENV :: NodeEnv
  VERIFICATION_THRESHOLD :: real
  DUPLICATE_DISTANCE_METERS :: real
  DUPLICATE_TIME_MINUTES :: real

definition defaultEnv :: Env where
  "defaultEnv = \<lparr> NODE_ENV = development, VERIFICATION_THRESHOLD = 5,
     DUPLICATE_DISTANCE_METERS = 200, DUPLICATE_TIME_MINUTES = 10 \<rparr>"

section \<open>The persistence contract\<close>

text \<open>
  Modelled from the spec: \<^verbatim>\<open>prisma/schema.prisma\<close> is not among the sources. The spec
  (sections 3 and 6) gives the constraints the operations below enforce: incidents are
  found by their unique id; a Vote references a user and an incident and is unique per
  (userId, incidentId); an AdminNote references an incident and its author; a new
  incident starts with upvote count 0 and both timestamps at its creation. The error
  codes are Prisma's: P2002 unique constraint, P2003 foreign key, P2025 record not found.
  Column defaults that only the schema could give (ids and timestamps of votes and notes,
  automatic update timestamps) are not modelled.
\<close>

definition prisma_incident_findUnique :: "Store \<Rightarrow> string \<Rightarrow> Incident option" where
  "prisma_incident_findUnique s k = find (\<lambda>i. id' i = k) (incidents s)"

definition prisma_vote_findUnique :: "Store \<Rightarrow> string \<Rightarrow> string \<Rightarrow> Vote option" where
  "prisma_vote_findUnique s u k =
     find (\<lambda>v. vote_userId v = u \<and> vote_incidentId v = k) (votes s)"

definition prisma_incident_create :: "Store \<Rightarrow> Incident \<Rightarrow> error + Store \<times> Incident" where
  "prisma_incident_create s row =
     (if prisma_incident_findUnique s (id' row) \<noteq> None
      then Inl (PrismaClientKnownRequestError ''P2002'' [''id''])
      else Inr (s\<lparr>incidents := incidents s @ [row]\<rparr>, row))"

definition prisma_incident_update ::
  "Store \<Rightarrow> string \<Rightarrow> (Incident \<Rightarrow> Incident) \<Rightarrow> error + Store \<times> Incident" where
  "prisma_incident_update s k f =
     (case prisma_incident_findUnique s k of
        None \<Rightarrow> Inl (PrismaClientKnownRequestError ''P2025'' [])
      | Some i \<Rightarrow>
          Inr (s\<lparr>incidents := map (\<lambda>j. if id' j = k then f j else j) (incidents s)\<rparr>, f i))"

definition prisma_vote_create :: "Store \<Rightarrow> string \<Rightarrow> string \<Rightarrow> error + Store" where
  "prisma_vote_create s u k =
     (if prisma_vote_findUnique s u k \<noteq> None
      then Inl (PrismaClientKnownRequestError ''P2002'' [''userId'', ''incidentId''])
      else if prisma_incident_findUnique s k = None \<or> u \<notin> set (users s)
      then Inl (PrismaClientKnownRequestError ''P2003'' [])
      else Inr (s\<lparr>votes := votes s @ [\<lparr>vote_userId = u, vote_incidentId = k\<rparr>]\<rparr>))"

definition prisma_adminNote_create :: "Store \<Rightarrow> AdminNote \<Rightarrow> error + Store" where
  "prisma_adminNote_create s n =
     (if prisma_incident_findUnique s (note_incidentId n) = None \<or> note_userId n \<notin> set (users s)
      then Inl (PrismaClientKnownRequestError ''P2003'' [])
      else Inr (s\<lparr>adminNotes := adminNotes s @ [n]\<rparr>))"

section \<open>The world of a request: store, notification sink, effects\<close>

text \<open>
  Every interaction with a collaborator that changes something is appended to \<open>effects\<close>
  in the order the code awaits it: a media upload (folder, bytes), a committed store
  write (the Prisma operation), an emission to the sockets (event name, room or None for
  all clients, the incident sent; the ISO timestamp of the payload is not modelled).
  \<open>socketService\<close> tells whether the singleton \<^verbatim>\<open>socketServiceInstance\<close> is initialised.
\<close>

datatype Effect =
    Upload string string
  | Write string
  | Emit string "string option" Incident

record World =
  db :: Store
  socketService :: bool
  effects :: "Effect list"

definition commit :: "string list \<Rightarrow> Store \<Rightarrow> World \<Rightarrow> World" where
  "commit ops s w = w\<lparr>db := s, effects := effects w @ map Write ops\<rparr>"

definition emitNewIncident :: "World \<Rightarrow> Incident \<Rightarrow> World" where
  "emitNewIncident w incident =
     w\<lparr>effects := effects w @ [Emit ''incident:new'' None incident]\<rparr>"

definition emitIncidentUpdate :: "World \<Rightarrow> Incident \<Rightarrow> World" where
  "emitIncidentUpdate w incident =
     w\<lparr>effects := effects w @
        [Emit ''incident:update'' None incident,
         Emit ''incident:updated'' (Some (''incident:'' @ id' incident)) incident]\<rparr>"

text \<open>
  \<^verbatim>\<open>const socketService = getSocketService(); if (socketService) ...\<close>: the service
  functions publish only when the singleton exists.
\<close>

definition notifyNew :: "World \<Rightarrow> Incident \<Rightarrow> World" where
  "notifyNew w incident = (if socketService w then emitNewIncident w incident else w)"

definition notifyUpdate :: "World \<Rightarrow> Incident \<Rightarrow> World" where
  "notifyUpdate w incident = (if socketService w then emitIncidentUpdate w incident else w)"

text \<open>The events published so far, oldest first.\<close>

fun isEmit :: "Effect \<Rightarrow> bool" where
  "isEmit (Emit n r i) = True"
| "isEmit e = False"

definition published :: "World \<Rightarrow> Effect list" where
  "published w = filter isEmit (effects w)"

section \<open>Upvoting\<close>

record UpvoteResult =
  incident :: "Incident option"
  alreadyVoted :: bool

definition increment :: "Incident \<Rightarrow> Incident" where
  "increment i = i\<lparr>upvoteCount := upvoteCount i + 1\<rparr>"

definition verify :: "Incident \<Rightarrow> Incident" where
  "verify i = i\<lparr>status := VERIFIED\<rparr>"

text \<open>
  \<^verbatim>\<open>prisma.$transaction([vote.create, incident.update])\<close>: the two statements in order,
  all or nothing. On \<open>Inl\<close> the caller keeps the store it had.
\<close>

definition upvoteTransaction :: "Store \<Rightarrow> string \<Rightarrow> string \<Rightarrow> error + Store \<times> Incident" where
  "upvoteTransaction s userId incidentId =
     (case prisma_vote_create s userId incidentId of
        Inl e \<Rightarrow> Inl e
      | Inr s1 \<Rightarrow> prisma_incident_update s1 incidentId increment)"

text \<open>
  \<^verbatim>\<open>IncidentService.upvoteIncident\<close>. Requests run concurrently, so other requests can
  commit while this one awaits: \<open>between\<close> is what they commit between the lookup of the
  existing vote and the transaction. The result's \<open>incident\<close> is None where the code
  returns \<^verbatim>\<open>incident!\<close> for a null row.
\<close>

definition upvoteIncident_interleaved ::
  "Env \<Rightarrow> (Store \<Rightarrow> Store) \<Rightarrow> World \<Rightarrow> string \<Rightarrow> string \<Rightarrow> (error + UpvoteResult) \<times> World" where
  "upvoteIncident_interleaved env between w incidentId userId =
     (if userId = ''anonymous'' then
        (case prisma_incident_update (db w) incidentId increment of
           Inl e \<Rightarrow> (Inl e, w)
         | Inr (s1, i) \<Rightarrow>
             (Inr \<lparr>incident = Some i, alreadyVoted = False\<rparr>, commit [''incident.update''] s1 w))
      else
        (case prisma_vote_findUnique (db w) userId incidentId of
           Some existingVote \<Rightarrow>
             (Inr \<lparr>incident = prisma_incident_findUnique (db w) incidentId, alreadyVoted = True\<rparr>, w)
         | None \<Rightarrow>
             (let w1 = w\<lparr>db := between (db w)\<rparr> in
              case upvoteTransaction (db w1) userId incidentId of
                Inl e \<Rightarrow> (Inl e, w1)
              | Inr (s2, i) \<Rightarrow>
                  (let w2 = commit [''vote.create'', ''incident.update''] s2 w1 in
                   if status i = REPORTED \<and> VERIFICATION_THRESHOLD env \<le> of_int (upvoteCount i)
                   then
                     (case prisma_incident_update (db w2) incidentId verify of
                        Inl e \<Rightarrow> (Inl e, w2)
                      | Inr (s3, verifiedIncident) \<Rightarrow>
                          (Inr \<lparr>incident = Some verifiedIncident, alreadyVoted = False\<rparr>,
                           notifyUpdate (commit [''incident.update''] s3 w2) verifiedIncident))
                   else (Inr \<lparr>incident = Some i, alreadyVoted = False\<rparr>, w2)))))"

text \<open>The call with no other request committing in between.\<close>

definition upvoteIncident ::
  "Env \<Rightarrow> World \<Rightarrow> string \<Rightarrow> string \<Rightarrow> (error + UpvoteResult) \<times> World" where
  "upvoteIncident env w incidentId userId =
     upvoteIncident_interleaved env (\<lambda>s. s) w incidentId userId"

text \<open>
  What a concurrent upvote of the same user commits when its transaction goes through
  (and nothing when it does not).
\<close>

definition concurrentVote :: "string \<Rightarrow> string \<Rightarrow> Store \<Rightarrow> Store" where
  "concurrentVote userId incidentId s =
     (case upvoteTransaction s userId incidentId of Inl e \<Rightarrow> s | Inr (s1, i) \<Rightarrow> s1)"

section \<open>The HTTP boundary\<close>

record Response =
  statusCode :: nat
  success :: bool
  data :: "Incident option"
  message :: string

fun join :: "string list \<Rightarrow> string" where
  "join [] = []"
| "join [x] = x"
| "join (x # y # zs) = x @ '', '' @ join (y # zs)"

text \<open>
  The \<^verbatim>\<open>message\<close> of a Prisma error, which \<^verbatim>\<open>errorHandler\<close> answers outside production for
  the codes it has no branch for. The texts are the library's and not among the sources:
  they stand here in short, by code, and none of them is empty.
\<close>

definition prismaMessage :: "string \<Rightarrow> string list \<Rightarrow> string" where
  "prismaMessage code target =
     (if code = ''P2002'' then ''Unique constraint failed on the fields: ('' @ join target @ '')''
      else if code = ''P2003'' then ''Foreign key constraint failed''
      else if code = ''P2025'' then ''Record to update not found.''
      else ''Request failed with code '' @ code)"

text \<open>
  \<^verbatim>\<open>errorHandler\<close>: the response by class of error. \<open>message\<close> is the body's \<^verbatim>\<open>error\<close>
  text; the validation details and the stack trace of the body are not modelled.
\<close>

fun errorHandler :: "Env \<Rightarrow> error \<Rightarrow> Response" where
  "errorHandler env (ZodError issues) =
     \<lparr>statusCode = 400, success = False, data = None, message = ''Validation failed''\<rparr>"
| "errorHandler env (AppError msg code) =
     \<lparr>statusCode = code, success = False, data = None, message = msg\<rparr>"
| "errorHandler env (PrismaClientKnownRequestError code target) =
     (if code = ''P2002'' then
        \<lparr>statusCode = 409, success = False, data = None,
         message = ''A record with this '' @ (if join target = [] then ''field'' else join target)
                   @ '' already exists''\<rparr>
      else if code = ''P2025'' then
        \<lparr>statusCode = 404, success = False, data = None, message = ''Record not found''\<rparr>
      else
        \<lparr>statusCode = 500, success = False, data = None,
         message = (if NODE_ENV env = production then ''An unexpected error occurred''
                    else if prismaMessage code target = [] then ''Internal server error''
                    else prismaMessage code target)\<rparr>)"
| "errorHandler env JsonWebTokenError =
     \<lparr>statusCode = 401, success = False, data = None, message = ''Invalid token''\<rparr>"
| "errorHandler env TokenExpiredError =
     \<lparr>statusCode = 401, success = False, data = None, message = ''Token has expired''\<rparr>"
| "errorHandler env (Error msg) =
     \<lparr>statusCode = 500, success = False, data = None,
      message = (if NODE_ENV env = production then ''An unexpected error occurred''
                 else if msg = [] then ''Internal server error'' else msg)\<rparr>"

text \<open>
  \<^verbatim>\<open>IncidentController.upvoteIncident\<close>: \<open>user\<close> is the id of \<^verbatim>\<open>req.user\<close> when the
  optional authentication attached one. Every error goes to \<open>errorHandler\<close>.
\<close>

definition upvoteIncidentController ::
  "Env \<Rightarrow> (Store \<Rightarrow> Store) \<Rightarrow> World \<Rightarrow> string \<Rightarrow> string option \<Rightarrow> Response \<times> World" where
  "upvoteIncidentController env between w ident user =
     (if ident = [] then (errorHandler env (AppError ''Incident ID is required'' 400), w)
      else
        (let userId = (case user of None \<Rightarrow> ''anonymous''
                       | Some u \<Rightarrow> if u = [] then ''anonymous'' else u)
         in case upvoteIncident_interleaved env between w ident userId of
              (Inl e, w1) \<Rightarrow> (errorHandler env e, w1)
            | (Inr r, w1) \<Rightarrow>
                if alreadyVoted r then
                  (\<lparr>statusCode = 200, success = True, data = incident r,
                    message = ''You have already upvoted this incident''\<rparr>, w1)
                else
                  (case incident r of
                     None \<Rightarrow> (errorHandler env (Error ''TypeError''), w1)
                   | Some i \<Rightarrow>
                       (\<lparr>statusCode = 200, success = True, data = Some i,
                         message = (if status i = VERIFIED
                                    then ''Upvote recorded. Incident is now verified!''
                                    else ''Upvote recorded successfully'')\<rparr>, w1))))"

section \<open>Geo-distance\<close>

definition EARTH_RADIUS_METERS :: real where
  "EARTH_RADIUS_METERS = 6371000"

definition toRadians :: "real \<Rightarrow> real" where
  "toRadians degrees = degrees * (pi / 180)"

text \<open>\<^verbatim>\<open>Math.atan2(y, x)\<close>: the angle of the point \<open>(x, y)\<close>, in \<open>(-pi, pi]\<close>.\<close>

definition atan2 :: "real \<Rightarrow> real \<Rightarrow> real" where
  "atan2 y x =
     (if 0 < x then arctan (y / x)
      else if x < 0 then (if 0 \<le> y then arctan (y / x) + pi else arctan (y / x) - pi)
      else if 0 < y then pi / 2
      else if y < 0 then - (pi / 2)
      else 0)"

text \<open>
  \<^verbatim>\<open>calculateDistance\<close>, the haversine formula. For latitudes in \<open>[-90, 90]\<close> the term
  \<open>a\<close> lies in \<open>[0, 1]\<close>, so both square roots are of non-negative numbers.
\<close>

definition calculateDistance :: "real \<Rightarrow> real \<Rightarrow> real \<Rightarrow> real \<Rightarrow> real" where
  "calculateDistance lat1 lon1 lat2 lon2 =
     (let dLat = toRadians (lat2 - lat1);
          dLon = toRadians (lon2 - lon1);
          a = sin (dLat / 2) * sin (dLat / 2) +
              cos (toRadians lat1) * cos (toRadians lat2) * sin (dLon / 2) * sin (dLon / 2);
          c = 2 * atan2 (sqrt a) (sqrt (1 - a))
      in EARTH_RADIUS_METERS * c)"

definition isWithinDistance :: "real \<Rightarrow> real \<Rightarrow> real \<Rightarrow> real \<Rightarrow> real \<Rightarrow> bool" where
  "isWithinDistance lat1 lon1 lat2 lon2 maxDistanceMeters =
     (calculateDistance lat1 lon1 lat2 lon2 \<le> maxDistanceMeters)"

section \<open>Duplicate detection\<close>

definition toUpperChar :: "char \<Rightarrow> char" where
  "toUpperChar c =
     (let n = (of_char c :: nat) in if 97 \<le> n \<and> n \<le> 122 then char_of (n - 32) else c)"

definition toUpperCase :: "string \<Rightarrow> string" where
  "toUpperCase s = map toUpperChar s"

text \<open>Prisma's \<^verbatim>\<open>equals\<close> with \<^verbatim>\<open>mode: 'insensitive'\<close>.\<close>

definition equalsInsensitive :: "string \<Rightarrow> string \<Rightarrow> bool" where
  "equalsInsensitive a b = (toUpperCase a = toUpperCase b)"

text \<open>\<^verbatim>\<open>new Date(ms)\<close>: the time value is the number truncated to whole milliseconds.\<close>

definition Date :: "real \<Rightarrow> int" where
  "Date ms = (if 0 \<le> ms then \<lfloor>ms\<rfloor> else \<lceil>ms\<rceil>)"

record DuplicateCheckResult =
  isDuplicate :: bool
  duplicateOf :: "string option"
  reason :: "(real \<times> real) option"

text \<open>
  \<^verbatim>\<open>Math.cos((latitude * Math.PI) / 180)\<close>. The real cosine is 0 at the poles, where the
  double computation is not: for latitude 90 and -90 it gives 6.123233995736766e-17, the
  cosine of the double nearest to \<open>pi / 2\<close>. The model takes that value there, so the
  quotient of the longitude delta is never a division by zero. (Validated latitudes lie
  in \<open>[-90, 90]\<close>, where the real cosine has no other zero.)
\<close>

definition cosLatitude :: "real \<Rightarrow> real" where
  "cosLatitude lat =
     (if cos (lat * pi / 180) = 0 then 6123233995736766 / 10 ^ 32
      else cos (lat * pi / 180))"

text \<open>The \<^verbatim>\<open>where\<close> clause of the query in \<^verbatim>\<open>checkForDuplicate\<close>.\<close>

definition duplicateWhere :: "Env \<Rightarrow> string \<Rightarrow> real \<Rightarrow> real \<Rightarrow> int \<Rightarrow> Incident \<Rightarrow> bool" where
  "duplicateWhere env ty lat lon now i =
     (let timeWindowStart = Date (of_int now - DUPLICATE_TIME_MINUTES env * 60 * 1000);
          latDelta = DUPLICATE_DISTANCE_METERS env / 111000;
          lonDelta = latDelta / cosLatitude lat
      in equalsInsensitive (incidentType i) ty
         \<and> timeWindowStart \<le> createdAt i
         \<and> lat - latDelta \<le> latitude i \<and> latitude i \<le> lat + latDelta
         \<and> lon - lonDelta \<le> longitude i \<and> longitude i \<le> lon + lonDelta
         \<and> status i \<noteq> RESOLVED \<and> status i \<noteq> FLAGGED)"

text \<open>
  \<^verbatim>\<open>findMany({where, orderBy: {createdAt: 'desc'}, take: 20})\<close>; rows created in the
  same millisecond keep the order of the table.
\<close>

definition recentIncidents :: "Env \<Rightarrow> Store \<Rightarrow> string \<Rightarrow> real \<Rightarrow> real \<Rightarrow> int \<Rightarrow> Incident list" where
  "recentIncidents env s ty lat lon now =
     take 20 (sort_key (\<lambda>i. - createdAt i) (filter (duplicateWhere env ty lat lon now) (incidents s)))"

text \<open>
  The loop over the candidates. \<open>reason\<close> holds the two numbers the message interpolates
  (distance in metres, window in minutes) instead of the formatted text.
\<close>

fun firstWithinDistance :: "Env \<Rightarrow> real \<Rightarrow> real \<Rightarrow> Incident list \<Rightarrow> DuplicateCheckResult" where
  "firstWithinDistance env lat lon [] =
     \<lparr>isDuplicate = False, duplicateOf = None, reason = None\<rparr>"
| "firstWithinDistance env lat lon (i # rest) =
     (if isWithinDistance lat lon (latitude i) (longitude i) (DUPLICATE_DISTANCE_METERS env)
      then \<lparr>isDuplicate = True, duplicateOf = Some (id' i),
            reason = Some (DUPLICATE_DISTANCE_METERS env, DUPLICATE_TIME_MINUTES env)\<rparr>
      else firstWithinDistance env lat lon rest)"

definition checkForDuplicate ::
  "Env \<Rightarrow> Store \<Rightarrow> string \<Rightarrow> real \<Rightarrow> real \<Rightarrow> int \<Rightarrow> DuplicateCheckResult" where
  "checkForDuplicate env s ty lat lon now =
     firstWithinDistance env lat lon (recentIncidents env s ty lat lon now)"

section \<open>Media store\<close>

record UploadApiResponse =
  secure_url :: string
  public_id :: string

text \<open>
  \<^verbatim>\<open>uploadToCloudinary\<close>. The provider is the parameter \<open>upload_stream\<close>: for a folder and
  the bytes it gives the two arguments of the callback, the error's message and the
  result.
\<close>

definition uploadToCloudinary ::
  "(string \<Rightarrow> string \<Rightarrow> string option \<times> UploadApiResponse option) \<Rightarrow> string \<Rightarrow> string
   \<Rightarrow> error + UploadApiResponse" where
  "uploadToCloudinary upload_stream buffer folder =
     (case upload_stream (''anginat/'' @ folder) buffer of
        (Some msg, result) \<Rightarrow> Inl (Error (''Cloudinary upload failed: '' @ msg))
      | (None, Some result) \<Rightarrow>
          Inr \<lparr>secure_url = secure_url result, public_id = public_id result\<rparr>
      | (None, None) \<Rightarrow> Inl (Error ''Cloudinary upload returned no result''))"

section \<open>Creating an incident\<close>

record CreateIncidentInput =
  in_incidentType :: string
  in_description :: string
  in_latitude :: real
  in_longitude :: real
  in_severity :: Severity

text \<open>
  \<^verbatim>\<open>IncidentService.createIncident\<close> from the duplicate check on (what follows the
  upload): \<open>newId\<close> is the value of \<^verbatim>\<open>uuidv4()\<close>, \<open>now\<close> the clock in milliseconds.
\<close>

definition persistIncident ::
  "Env \<Rightarrow> World \<Rightarrow> CreateIncidentInput \<Rightarrow> string option \<Rightarrow> string \<Rightarrow> int \<Rightarrow> (error + Incident) \<times> World" where
  "persistIncident env w input url newId now =
     (let duplicateCheck = checkForDuplicate env (db w) (in_incidentType input)
                             (in_latitude input) (in_longitude input) now
      in case prisma_incident_create (db w)
             \<lparr>id' = newId,
              incidentType = toUpperCase (in_incidentType input),
              description = (if isDuplicate duplicateCheck
                             then ''[POTENTIAL DUPLICATE] '' @ in_description input
                             else in_description input),
              latitude = in_latitude input,
              longitude = in_longitude input,
              severity = in_severity input,
              status = (if isDuplicate duplicateCheck then FLAGGED else REPORTED),
              upvoteCount = 0,
              mediaUrl = url,
              createdAt = now,
              updatedAt = now\<rparr> of
           Inl e \<Rightarrow> (Inl e, w)
         | Inr (s1, created) \<Rightarrow> (Inr created, notifyNew (commit [''incident.create''] s1 w) created))"

definition createIncident ::
  "Env \<Rightarrow> (string \<Rightarrow> string \<Rightarrow> string option \<times> UploadApiResponse option) \<Rightarrow> World
   \<Rightarrow> CreateIncidentInput \<Rightarrow> string option \<Rightarrow> string \<Rightarrow> int \<Rightarrow> (error + Incident) \<times> World" where
  "createIncident env upload_stream w input mediaBuffer newId now =
     (case mediaBuffer of
        None \<Rightarrow> persistIncident env w input None newId now
      | Some buffer \<Rightarrow>
          (case uploadToCloudinary upload_stream buffer ''incidents'' of
             Inl e \<Rightarrow> (Inl e, w)
           | Inr uploadResult \<Rightarrow>
               persistIncident env (w\<lparr>effects := effects w @ [Upload ''anginat/incidents'' buffer]\<rparr>)
                 input (Some (secure_url uploadResult)) newId now))"

text \<open>
  \<^verbatim>\<open>createIncidentSchema\<close> on a body whose coordinates are numbers and whose severity,
  when present, is one of the three levels. The error lists the fields with an issue.
\<close>

record CreateIncidentBody =
  body_incidentType :: string
  body_description :: string
  body_latitude :: real
  body_longitude :: real
  body_severity :: "Severity option"

definition incidentTypes :: "string list" where
  "incidentTypes = [''FIRE'', ''FLOOD'', ''EARTHQUAKE'', ''ACCIDENT'', ''MEDICAL'', ''CRIME'',
     ''INFRASTRUCTURE'', ''ENVIRONMENTAL'', ''OTHER'']"

definition createIncidentSchema :: "CreateIncidentBody \<Rightarrow> error + CreateIncidentInput" where
  "createIncidentSchema body =
     (let issues =
        (if length (body_incidentType body) < 1 \<or> 50 < length (body_incidentType body)
            \<or> toUpperCase (body_incidentType body) \<notin> set incidentTypes
         then [''incidentType''] else []) @
        (if length (body_description body) < 10 \<or> 2000 < length (body_description body)
         then [''description''] else []) @
        (if body_latitude body < -90 \<or> 90 < body_latitude body then [''latitude''] else []) @
        (if body_longitude body < -180 \<or> 180 < body_longitude body then [''longitude''] else [])
      in if issues = [] then
           Inr \<lparr>in_incidentType = body_incidentType body,
                in_description = body_description body,
                in_latitude = body_latitude body,
                in_longitude = body_longitude body,
                in_severity = (case body_severity body of None \<Rightarrow> MEDIUM | Some v \<Rightarrow> v)\<rparr>
         else Inl (ZodError issues))"

text \<open>\<^verbatim>\<open>IncidentController.createIncident\<close>.\<close>

definition createIncidentController ::
  "Env \<Rightarrow> (string \<Rightarrow> string \<Rightarrow> string option \<times> UploadApiResponse option) \<Rightarrow> World
   \<Rightarrow> CreateIncidentBody \<Rightarrow> string option \<Rightarrow> string \<Rightarrow> int \<Rightarrow> Response \<times> World" where
  "createIncidentController env upload_stream w body mediaBuffer newId now =
     (case createIncidentSchema body of
        Inl e \<Rightarrow> (errorHandler env e, w)
      | Inr validatedData \<Rightarrow>
          (case createIncident env upload_stream w validatedData mediaBuffer newId now of
             (Inl e, w1) \<Rightarrow> (errorHandler env e, w1)
           | (Inr i, w1) \<Rightarrow>
               (\<lparr>statusCode = 201, success = True, data = Some i,
                 message = (if status i = FLAGGED
                            then ''Incident reported and flagged as potential duplicate''
                            else ''Incident reported successfully'')\<rparr>, w1)))"

section \<open>Listing incidents\<close>

datatype SortBy = ByCreatedAt | ByUpdatedAt | BySeverity | ByUpvoteCount

datatype SortOrder = Asc | Desc

text \<open>
  The validated query (\<^verbatim>\<open>incidentQuerySchema\<close>): \<open>page\<close> and \<open>limit\<close> are at least 1, each
  of the four bounds is present or not on its own.
\<close>

record IncidentQueryInput =
  page :: nat
  limit :: nat
  q_status :: "IncidentStatus option"
  q_incidentType :: "string option"
  q_severity :: "Severity option"
  sortBy :: SortBy
  sortOrder :: SortOrder
  minLat :: "real option"
  maxLat :: "real option"
  minLng :: "real option"
  maxLng :: "real option"

text \<open>The \<^verbatim>\<open>where\<close> clause \<^verbatim>\<open>getIncidents\<close> builds; an empty type string is falsy.\<close>

definition listWhere :: "IncidentQueryInput \<Rightarrow> Incident \<Rightarrow> bool" where
  "listWhere q i =
     ((case q_status q of None \<Rightarrow> True | Some st \<Rightarrow> status i = st)
      \<and> (case q_incidentType q of None \<Rightarrow> True
          | Some ty \<Rightarrow> ty = [] \<or> incidentType i = toUpperCase ty)
      \<and> (case q_severity q of None \<Rightarrow> True | Some sv \<Rightarrow> severity i = sv)
      \<and> (case (minLat q, maxLat q) of
            (Some lo, Some hi) \<Rightarrow> lo \<le> latitude i \<and> latitude i \<le> hi
          | _ \<Rightarrow> True)
      \<and> (case (minLng q, maxLng q) of
            (Some lo, Some hi) \<Rightarrow> lo \<le> longitude i \<and> longitude i \<le> hi
          | _ \<Rightarrow> True))"

text \<open>
  Modelled from the spec: the order of the severity enum is declared in the missing
  schema; the spec lists the levels as LOW, MEDIUM, HIGH.
\<close>

fun severityRank :: "Severity \<Rightarrow> int" where
  "severityRank LOW = 0"
| "severityRank MEDIUM = 1"
| "severityRank HIGH = 2"

fun sortValue :: "SortBy \<Rightarrow> Incident \<Rightarrow> int" where
  "sortValue ByCreatedAt i = createdAt i"
| "sortValue ByUpdatedAt i = updatedAt i"
| "sortValue BySeverity i = severityRank (severity i)"
| "sortValue ByUpvoteCount i = upvoteCount i"

fun orderBy :: "SortBy \<Rightarrow> SortOrder \<Rightarrow> Incident list \<Rightarrow> Incident list" where
  "orderBy k Asc rows = sort_key (sortValue k) rows"
| "orderBy k Desc rows = sort_key (\<lambda>i. - sortValue k i) rows"

record IncidentPage =
  page_incidents :: "(Incident \<times> nat \<times> nat) list"
  total :: nat
  page_number :: nat
  totalPages :: int

text \<open>\<^verbatim>\<open>include: {_count: {select: {votes: true, adminNotes: true}}}\<close>.\<close>

definition withCount :: "Store \<Rightarrow> Incident \<Rightarrow> Incident \<times> nat \<times> nat" where
  "withCount s i =
     (i, length (filter (\<lambda>v. vote_incidentId v = id' i) (votes s)),
         length (filter (\<lambda>n. note_incidentId n = id' i) (adminNotes s)))"

definition getIncidents :: "Store \<Rightarrow> IncidentQueryInput \<Rightarrow> IncidentPage" where
  "getIncidents s q =
     (let skip = (page q - 1) * limit q;
          rows = filter (listWhere q) (incidents s)
      in \<lparr>page_incidents =
             map (withCount s) (take (limit q) (drop skip (orderBy (sortBy q) (sortOrder q) rows))),
           total = length rows,
           page_number = page q,
           totalPages = \<lceil>real (length rows) / real (limit q)\<rceil>\<rparr>)"

section \<open>Updating the status\<close>

fun statusName :: "IncidentStatus \<Rightarrow> string" where
  "statusName REPORTED = ''REPORTED''"
| "statusName VERIFIED = ''VERIFIED''"
| "statusName IN_PROGRESS = ''IN_PROGRESS''"
| "statusName RESOLVED = ''RESOLVED''"
| "statusName FLAGGED = ''FLAGGED''"

text \<open>
  \<^verbatim>\<open>IncidentService.updateIncidentStatus\<close>: three awaited steps, none of them in a
  transaction. An absent or empty note is falsy.
\<close>

definition updateIncidentStatus ::
  "World \<Rightarrow> string \<Rightarrow> IncidentStatus \<Rightarrow> string \<Rightarrow> string option \<Rightarrow> int \<Rightarrow> (error + Incident) \<times> World" where
  "updateIncidentStatus w ident newStatus adminId note now =
     (case prisma_incident_update (db w) ident (\<lambda>i. i\<lparr>status := newStatus, updatedAt := now\<rparr>) of
        Inl e \<Rightarrow> (Inl e, w)
      | Inr (s1, i) \<Rightarrow>
          (let w1 = commit [''incident.update''] s1 w in
           case note of
             Some (c # cs) \<Rightarrow>
               (case prisma_adminNote_create (db w1)
                       \<lparr>note_incidentId = ident, note_userId = adminId,
                        note_text = ''Status changed to '' @ statusName newStatus @ '': '' @ (c # cs)\<rparr> of
                  Inl e \<Rightarrow> (Inl e, w1)
                | Inr s2 \<Rightarrow> (Inr i, notifyUpdate (commit [''adminNote.create''] s2 w1) i))
           | _ \<Rightarrow> (Inr i, notifyUpdate w1 i)))"

section \<open>The spec's notions of distance and of type match\<close>

text \<open>
  Following the spec (section 4.1): the great-circle distance in metres of two points
  given in degrees, on the sphere of radius 6,371,000 m. It is the radius times the
  central angle of the two points, the angle whose cosine is the inner product of their
  unit position vectors.
\<close>

definition greatCircleDistance :: "real \<Rightarrow> real \<Rightarrow> real \<Rightarrow> real \<Rightarrow> real" where
  "greatCircleDistance lat1 lon1 lat2 lon2 =
     6371000 * arccos (sin (lat1 * pi / 180) * sin (lat2 * pi / 180) +
                       cos (lat1 * pi / 180) * cos (lat2 * pi / 180) *
                       cos ((lon2 - lon1) * pi / 180))"





section \<open>Scenarios\<close>

text \<open>A store with one reported incident that has \<open>n\<close> upvotes, and two users.\<close>

definition pothole :: "int \<Rightarrow> Incident" where
  "pothole n = \<lparr>id' = ''i1'', incidentType = ''INFRASTRUCTURE'',
     description = ''Pothole on Main St'', latitude = 40, longitude = -75,
     severity = MEDIUM, status = REPORTED, upvoteCount = n, mediaUrl = None,
     createdAt = 1000, updatedAt = 1000\<rparr>"

definition town :: "int \<Rightarrow> World" where
  "town n = \<lparr>db = \<lparr>incidents = [pothole n], votes = [], adminNotes = [],
                    users = [''u1'', ''admin'']\<rparr>,
             socketService = True, effects = []\<rparr>"

text \<open>The same store after user u1 has voted for the incident.\<close>

definition townVoted :: World where
  "townVoted = (town 0)\<lparr>db := concurrentVote ''u1'' ''i1'' (db (town 0))\<rparr>"

text \<open>An empty system with the notification sink running.\<close>

definition emptyWorld :: World where
  "emptyWorld = \<lparr>db = \<lparr>incidents = [], votes = [], adminNotes = [], users = []\<rparr>,
                 socketService = True, effects = []\<rparr>"

text \<open>A media store that accepts every upload, and one that is down.\<close>

definition cloudUp :: "string \<Rightarrow> string \<Rightarrow> string option \<times> UploadApiResponse option" where
  "cloudUp folder buffer =
     (None, Some \<lparr>secure_url = ''https://media/'' @ folder, public_id = folder\<rparr>)"

definition cloudDown :: "string \<Rightarrow> string \<Rightarrow> string option \<times> UploadApiResponse option" where
  "cloudDown folder buffer = (Some ''timeout'', None)"

text \<open>
  The two reports of the concrete scenario: A at (40.0, -75.0) with a description of 12
  characters and no severity given, B at (40.0005, -75.0005), both of type FIRE.
\<close>

definition bodyA :: CreateIncidentBody where
  "bodyA = \<lparr>body_incidentType = ''FIRE'', body_description = ''Fire at dock'',
            body_latitude = 40, body_longitude = -75, body_severity = None\<rparr>"

definition bodyB :: CreateIncidentBody where
  "bodyB = \<lparr>body_incidentType = ''FIRE'', body_description = ''Smoke near dock'',
            body_latitude = 40.0005, body_longitude = -75.0005, body_severity = None\<rparr>"

definition inputB :: CreateIncidentInput where
  "inputB = \<lparr>in_incidentType = ''FIRE'', in_description = ''Smoke near dock'',
             in_latitude = 40.0005, in_longitude = -75.0005, in_severity = MEDIUM\<rparr>"

text \<open>The world after report A has been created with id \<open>k\<close> at time 1000.\<close>

definition afterA :: "string \<Rightarrow> World" where
  "afterA k = snd (createIncidentController defaultEnv cloudUp emptyWorld bodyA None k 1000)"

text \<open>
  The creation of report B, with id B at time 31000, after report A was created with
  id \<open>k\<close>, and the incident that creation is expected to give.
\<close>

definition createB :: "string \<Rightarrow> Response \<times> World" where
  "createB k = createIncidentController defaultEnv cloudUp (afterA k) bodyB None ''B'' 31000"

definition flaggedB :: Incident where
  "flaggedB = \<lparr>id' = ''B'', incidentType = ''FIRE'',
      description = ''[POTENTIAL DUPLICATE] Smoke near dock'',
      latitude = 40.0005, longitude = -75.0005, severity = MEDIUM, status = FLAGGED,
      upvoteCount = 0, mediaUrl = None, createdAt = 31000, updatedAt = 31000\<rparr>"

text \<open>A query that gives only a southern bound of latitude, and one that gives both.\<close>

definition northOf50 :: IncidentQueryInput where
  "northOf50 = \<lparr>page = 1, limit = 20, q_status = None, q_incidentType = None,
     q_severity = None, sortBy = ByCreatedAt, sortOrder = Desc,
     minLat = Some 50, maxLat = None, minLng = None, maxLng = None\<rparr>"

definition between30and45 :: IncidentQueryInput where
  "between30and45 = \<lparr>page = 1, limit = 20, q_status = None, q_incidentType = None,
     q_severity = None, sortBy = ByCreatedAt, sortOrder = Desc,
     minLat = Some 30, maxLat = Some 45, minLng = None, maxLng = None\<rparr>"

section \<open>The store operations\<close>

lemma find_map_update:
  "find (\<lambda>i. id' i = k) xs = Some i \<Longrightarrow> id' (f i) = k \<Longrightarrow>
   find (\<lambda>i. id' i = k) (map (\<lambda>j. if id' j = k then f j else j) xs) = Some (f i)"
  by (induction xs) (auto split: if_splits)

lemma findUnique_id: "prisma_incident_findUnique s k = Some i \<Longrightarrow> id' i = k"
  by (auto simp: prisma_incident_findUnique_def find_Some_iff)

lemma update_found:
  assumes "prisma_incident_findUnique s k = Some i" and "id' (f i) = id' i"
  shows "\<exists>s1. prisma_incident_update s k f = Inr (s1, f i)
           \<and> prisma_incident_findUnique s1 k = Some (f i)
           \<and> votes s1 = votes s \<and> users s1 = users s \<and> adminNotes s1 = adminNotes s"
  using assms findUnique_id[OF assms(1)]
  by (simp add: prisma_incident_update_def prisma_incident_findUnique_def find_map_update)

lemma find_snoc:
  "find P (xs @ [y]) = (case find P xs of None \<Rightarrow> (if P y then Some y else None) | Some x \<Rightarrow> Some x)"
  by (induction xs) auto

lemma vote_create_ok:
  assumes "prisma_vote_findUnique s u k = None" "prisma_incident_findUnique s k = Some i"
    "u \<in> set (users s)"
  shows "\<exists>s1. prisma_vote_create s u k = Inr s1
     \<and> votes s1 = votes s @ [\<lparr>vote_userId = u, vote_incidentId = k\<rparr>]
     \<and> prisma_incident_findUnique s1 k = Some i \<and> users s1 = users s 
     \<and> adminNotes s1 = adminNotes s
     \<and> prisma_vote_findUnique s1 u k = Some \<lparr>vote_userId = u, vote_incidentId = k\<rparr>"
  using assms
  by (simp add: prisma_vote_create_def prisma_incident_findUnique_def prisma_vote_findUnique_def
      find_snoc)

lemma transaction_ok:
  assumes "prisma_vote_findUnique s u k = None" "prisma_incident_findUnique s k = Some i"
    "u \<in> set (users s)"
  shows "\<exists>s2. upvoteTransaction s u k = Inr (s2, increment i)
     \<and> votes s2 = votes s @ [\<lparr>vote_userId = u, vote_incidentId = k\<rparr>]
     \<and> prisma_incident_findUnique s2 k = Some (increment i) \<and> users s2 = users s
     \<and> adminNotes s2 = adminNotes s
     \<and> prisma_vote_findUnique s2 u k = Some \<lparr>vote_userId = u, vote_incidentId = k\<rparr>"
proof -
  from vote_create_ok[OF assms] obtain s1 where s1:
    "prisma_vote_create s u k = Inr s1"
    "votes s1 = votes s @ [\<lparr>vote_userId = u, vote_incidentId = k\<rparr>]"
    "prisma_incident_findUnique s1 k = Some i" "users s1 = users s"
    "adminNotes s1 = adminNotes s"
    "prisma_vote_findUnique s1 u k = Some \<lparr>vote_userId = u, vote_incidentId = k\<rparr>"
    by blast
  have "id' (increment i) = id' i" by (simp add: increment_def)
  from update_found[where f = increment, OF s1(3) this] obtain s2 where s2:
    "prisma_incident_update s1 k increment = Inr (s2, increment i)"
    "prisma_incident_findUnique s2 k = Some (increment i)"
    "votes s2 = votes s1" "users s2 = users s1" "adminNotes s2 = adminNotes s1"
    by blast
  have "prisma_vote_findUnique s2 u k = prisma_vote_findUnique s1 u k"
    by (simp add: prisma_vote_findUnique_def s2(3))
  with s1 s2 show ?thesis
    by (simp add: upvoteTransaction_def)
qed

lemma published_commit: "published (commit ops s w) = published w"
  by (induction ops) (simp_all add: published_def commit_def)

lemma vote_findUnique_votes:
  "votes s = votes s' \<Longrightarrow> prisma_vote_findUnique s u k = prisma_vote_findUnique s' u k"
  by (simp add: prisma_vote_findUnique_def)

lemma published_emitIncidentUpdate:
  "published (emitIncidentUpdate w v) = published w @
     [Emit ''incident:update'' None v, Emit ''incident:updated'' (Some (''incident:'' @ id' v)) v]"
  by (simp add: published_def emitIncidentUpdate_def)

lemma upvote_first_vote:
  assumes auth: "userId \<noteq> ''anonymous''"
      and found: "prisma_incident_findUnique (db w) incidentId = Some i"
      and fresh: "prisma_vote_findUnique (db w) userId incidentId = None"
      and user: "userId \<in> set (users (db w))"
  shows "\<exists>w1 j. upvoteIncident env w incidentId userId
                  = (Inr \<lparr>incident = Some j, alreadyVoted = False\<rparr>, w1)
     \<and> prisma_incident_findUnique (db w1) incidentId = Some j
     \<and> prisma_vote_findUnique (db w1) userId incidentId \<noteq> None
     \<and> upvoteCount j = upvoteCount i + 1
     \<and> socketService w1 = socketService w
     \<and> (if status i = REPORTED \<and> VERIFICATION_THRESHOLD env \<le> of_int (upvoteCount i + 1)
         then status j = VERIFIED
            \<and> published w1 = (if socketService w then published w @
                 [Emit ''incident:update'' None j,
                  Emit ''incident:updated'' (Some (''incident:'' @ incidentId)) j]
                else published w)
         else status j = status i \<and> published w1 = published w)"
proof -
  from transaction_ok[OF fresh found user] obtain s2 where s2:
    "upvoteTransaction (db w) userId incidentId = Inr (s2, increment i)"
    "prisma_incident_findUnique s2 incidentId = Some (increment i)"
    "prisma_vote_findUnique s2 userId incidentId
       = Some \<lparr>vote_userId = userId, vote_incidentId = incidentId\<rparr>"
    by blast
  let ?w2 = "commit [''vote.create'', ''incident.update''] s2 w"
  have d2: "db ?w2 = s2" "socketService ?w2 = socketService w" by (simp_all add: commit_def)
  have idi: "id' i = incidentId" by (rule findUnique_id[OF found])
  show ?thesis
  proof (cases "status i = REPORTED \<and> VERIFICATION_THRESHOLD env \<le> of_int (upvoteCount i + 1)")
    case True
    have "id' (verify (increment i)) = id' (increment i)" by (simp add: verify_def)
    from update_found[where f = verify, OF s2(2) this] obtain s3 where s3:
      "prisma_incident_update s2 incidentId verify = Inr (s3, verify (increment i))"
      "prisma_incident_findUnique s3 incidentId = Some (verify (increment i))"
      "votes s3 = votes s2"
      by blast
    let ?v = "verify (increment i)"
    let ?w3 = "commit [''incident.update''] s3 ?w2"
    have call: "upvoteIncident env w incidentId userId
        = (Inr \<lparr>incident = Some ?v, alreadyVoted = False\<rparr>, notifyUpdate ?w3 ?v)"
      using True auth fresh
      by (simp add: upvoteIncident_def upvoteIncident_interleaved_def s2 d2 s3 increment_def)
    have d3: "db (notifyUpdate ?w3 ?v) = s3"
      "socketService (notifyUpdate ?w3 ?v) = socketService w"
      by (simp_all add: notifyUpdate_def emitIncidentUpdate_def commit_def)
    have idv: "id' ?v = incidentId" using idi by (simp add: verify_def increment_def)
    have pub: "published (notifyUpdate ?w3 ?v) = (if socketService w then published w @
                 [Emit ''incident:update'' None ?v,
                  Emit ''incident:updated'' (Some (''incident:'' @ incidentId)) ?v]
                else published w)"
      using idv d2
      by (simp add: notifyUpdate_def published_emitIncidentUpdate published_commit)
        (simp add: commit_def)
    have vote: "prisma_vote_findUnique s3 userId incidentId \<noteq> None"
      using vote_findUnique_votes[OF s3(3)] s2(3) by simp
    have "status ?v = VERIFIED" "upvoteCount ?v = upvoteCount i + 1"
      by (simp_all add: verify_def increment_def)
    with True call d3 s3(2) pub vote show ?thesis by simp
  next
    case False
    have call: "upvoteIncident env w incidentId userId
        = (Inr \<lparr>incident = Some (increment i), alreadyVoted = False\<rparr>, ?w2)"
      using False auth fresh
      by (auto simp add: upvoteIncident_def upvoteIncident_interleaved_def s2 d2 increment_def)
    have "status (increment i) = status i" "upvoteCount (increment i) = upvoteCount i + 1"
      by (simp_all add: increment_def)
    with False call d2 s2 show ?thesis by (simp add: published_commit)
  qed
qed

lemma upvote_existing_vote:
  assumes "userId \<noteq> ''anonymous''"
      and "prisma_vote_findUnique (db w) userId incidentId \<noteq> None"
  shows "upvoteIncident env w incidentId userId
     = (Inr \<lparr>incident = prisma_incident_findUnique (db w) incidentId, alreadyVoted = True\<rparr>, w)"
  using assms by (auto simp: upvoteIncident_def upvoteIncident_interleaved_def)

lemma town_found: "prisma_incident_findUnique (db (town n)) ''i1'' = Some (pothole n)"
  by (simp add: town_def pothole_def prisma_incident_findUnique_def)

lemma town_no_vote: "prisma_vote_findUnique (db (town n)) ''u1'' ''i1'' = None"
  by (simp add: town_def prisma_vote_findUnique_def)

lemma town_race:
  "prisma_vote_findUnique (concurrentVote ''u1'' ''i1'' (db (town 0))) ''u1'' ''i1'' \<noteq> None"
  by (simp add: concurrentVote_def upvoteTransaction_def prisma_vote_create_def
      prisma_vote_findUnique_def prisma_incident_findUnique_def prisma_incident_update_def
      town_def pothole_def)

section \<open>Upvotes\<close>

text \<open>
  C8. An anonymous upvote (the controller passes \<^verbatim>\<open>'anonymous'\<close> when the request has no
  user) of an existing incident creates no Vote and is not deduplicated: the count is
  incremented at every call, so two calls in a row raise it by two, and the votes table
  stays as it was.
\<close>

theorem anonymous_upvote_unconditional:
  assumes "prisma_incident_findUnique (db w) incidentId = Some i" and "incidentId \<noteq> []"
  shows "\<exists>w1 w2 i1 i2.
     upvoteIncident env w incidentId ''anonymous''
       = (Inr \<lparr>incident = Some i1, alreadyVoted = False\<rparr>, w1)
   \<and> upvoteIncident env w1 incidentId ''anonymous''
       = (Inr \<lparr>incident = Some i2, alreadyVoted = False\<rparr>, w2)
   \<and> upvoteCount i1 = upvoteCount i + 1 \<and> upvoteCount i2 = upvoteCount i + 2
   \<and> prisma_incident_findUnique (db w1) incidentId = Some i1
   \<and> prisma_incident_findUnique (db w2) incidentId = Some i2
   \<and> votes (db w1) = votes (db w) \<and> votes (db w2) = votes (db w)
   \<and> fst (upvoteIncidentController env (\<lambda>s. s) w incidentId None)
       = \<lparr>statusCode = 200, success = True, data = Some i1,
          message = (if status i1 = VERIFIED then ''Upvote recorded. Incident is now verified!''
                     else ''Upvote recorded successfully'')\<rparr>"
proof -
  have inc: "\<And>j. id' (increment j) = id' j" by (simp add: increment_def)
  from update_found[where f = increment, OF assms(1) inc] obtain s1 where s1:
    "prisma_incident_update (db w) incidentId increment = Inr (s1, increment i)"
    "prisma_incident_findUnique s1 incidentId = Some (increment i)" "votes s1 = votes (db w)"
    by blast
  from update_found[where f = increment, OF s1(2) inc] obtain s2 where s2:
    "prisma_incident_update s1 incidentId increment = Inr (s2, increment (increment i))"
    "prisma_incident_findUnique s2 incidentId = Some (increment (increment i))"
    "votes s2 = votes s1"
    by blast
  let ?w1 = "commit [''incident.update''] s1 w"
  let ?w2 = "commit [''incident.update''] s2 ?w1"
  have d1: "db ?w1 = s1" and d2: "db ?w2 = s2" by (simp_all add: commit_def)
  have c1: "upvoteIncident env w incidentId ''anonymous''
       = (Inr \<lparr>incident = Some (increment i), alreadyVoted = False\<rparr>, ?w1)"
    by (simp add: upvoteIncident_def upvoteIncident_interleaved_def s1)
  have c2: "upvoteIncident env ?w1 incidentId ''anonymous''
       = (Inr \<lparr>incident = Some (increment (increment i)), alreadyVoted = False\<rparr>, ?w2)"
    by (simp add: upvoteIncident_def upvoteIncident_interleaved_def d1 s2)
  have c3: "fst (upvoteIncidentController env (\<lambda>s. s) w incidentId None)
       = \<lparr>statusCode = 200, success = True, data = Some (increment i),
          message = (if status (increment i) = VERIFIED
                     then ''Upvote recorded. Incident is now verified!''
                     else ''Upvote recorded successfully'')\<rparr>"
    using c1 assms(2) by (simp add: upvoteIncidentController_def upvoteIncident_def)
  show ?thesis
    using c1 c2 c3 s1 s2 d1 d2 by (simp add: increment_def)
qed

theorem anonymous_upvote_unconditional_witness:
  "\<exists>w1 w2 i1 i2.
     upvoteIncident defaultEnv (town 0) ''i1'' ''anonymous''
       = (Inr \<lparr>incident = Some i1, alreadyVoted = False\<rparr>, w1)
   \<and> upvoteIncident defaultEnv w1 ''i1'' ''anonymous''
       = (Inr \<lparr>incident = Some i2, alreadyVoted = False\<rparr>, w2)
   \<and> upvoteCount i1 = 1 \<and> upvoteCount i2 = 2
   \<and> votes (db w1) = [] \<and> votes (db w2) = []"
  using anonymous_upvote_unconditional[where w = "town 0" and env = defaultEnv, OF town_found]
  by (auto simp: town_def pothole_def)

text \<open>
  C3. For an authenticated user who has not voted yet on an existing incident, two calls
  of Upvote in a row leave the count incremented exactly once: the first call writes the
  Vote and the increment; the second returns the incident as it is stored, with
  \<open>alreadyVoted = True\<close>, and leaves the world as it found it (no write, no event).
  Whenever the Vote exists, the call returns the stored incident and changes nothing.
\<close>

theorem upvote_twice_counts_once:
  assumes auth: "userId \<noteq> ''anonymous''"
      and found: "prisma_incident_findUnique (db w) incidentId = Some i"
      and fresh: "prisma_vote_findUnique (db w) userId incidentId = None"
      and user: "userId \<in> set (users (db w))"
  shows "\<exists>w1 i1.
       upvoteIncident env w incidentId userId
         = (Inr \<lparr>incident = Some i1, alreadyVoted = False\<rparr>, w1)
     \<and> prisma_incident_findUnique (db w1) incidentId = Some i1
     \<and> upvoteCount i1 = upvoteCount i + 1
     \<and> upvoteIncident env w1 incidentId userId
         = (Inr \<lparr>incident = Some i1, alreadyVoted = True\<rparr>, w1)
     \<and> (\<forall>w2. prisma_vote_findUnique (db w2) userId incidentId \<noteq> None \<longrightarrow>
           upvoteIncident env w2 incidentId userId
             = (Inr \<lparr>incident = prisma_incident_findUnique (db w2) incidentId,
                     alreadyVoted = True\<rparr>, w2))"
proof -
  have any: "\<forall>w2. prisma_vote_findUnique (db w2) userId incidentId \<noteq> None \<longrightarrow>
           upvoteIncident env w2 incidentId userId
             = (Inr \<lparr>incident = prisma_incident_findUnique (db w2) incidentId,
                     alreadyVoted = True\<rparr>, w2)"
    using upvote_existing_vote[OF auth] by blast
  from upvote_first_vote[OF assms, of env] obtain w1 j where first:
    "upvoteIncident env w incidentId userId = (Inr \<lparr>incident = Some j, alreadyVoted = False\<rparr>, w1)"
    "prisma_incident_findUnique (db w1) incidentId = Some j"
    "prisma_vote_findUnique (db w1) userId incidentId \<noteq> None"
    "upvoteCount j = upvoteCount i + 1"
    by blast
  from upvote_existing_vote[OF auth first(3), of env] first any show ?thesis by simp
qed

theorem upvote_twice_counts_once_witness:
  "\<exists>w1 i1.
       upvoteIncident defaultEnv (town 0) ''i1'' ''u1''
         = (Inr \<lparr>incident = Some i1, alreadyVoted = False\<rparr>, w1)
     \<and> prisma_incident_findUnique (db w1) ''i1'' = Some i1
     \<and> upvoteCount i1 = 1
     \<and> upvoteIncident defaultEnv w1 ''i1'' ''u1''
         = (Inr \<lparr>incident = Some i1, alreadyVoted = True\<rparr>, w1)"
  using upvote_twice_counts_once[where w = "town 0" and env = defaultEnv, OF _ town_found town_no_vote]
  by (auto simp: town_def pothole_def)

text \<open>
  C2. An authenticated first upvote of an incident in status REPORTED, with the
  notification sink running: when the count after the increment has reached the
  verification threshold, the incident becomes VERIFIED and the update event is published
  (to all clients and to the incident's room); otherwise the status stays REPORTED and
  nothing is published. With the default threshold 5, an incident at 4 upvotes becomes
  VERIFIED and one at 3 does not.
\<close>

theorem upvote_threshold_verification:
  assumes auth: "userId \<noteq> ''anonymous''"
      and found: "prisma_incident_findUnique (db w) incidentId = Some i"
      and fresh: "prisma_vote_findUnique (db w) userId incidentId = None"
      and user: "userId \<in> set (users (db w))"
      and reported: "status i = REPORTED"
      and sink: "socketService w"
  shows "\<exists>w1 j.
       upvoteIncident env w incidentId userId
         = (Inr \<lparr>incident = Some j, alreadyVoted = False\<rparr>, w1)
     \<and> prisma_incident_findUnique (db w1) incidentId = Some j
     \<and> upvoteCount j = upvoteCount i + 1
     \<and> (if VERIFICATION_THRESHOLD env \<le> of_int (upvoteCount i + 1)
         then status j = VERIFIED
            \<and> published w1 = published w @
                 [Emit ''incident:update'' None j,
                  Emit ''incident:updated'' (Some (''incident:'' @ incidentId)) j]
         else status j = REPORTED \<and> published w1 = published w)"
  using upvote_first_vote[OF auth found fresh user, of env] reported sink
  by (auto split: if_splits)

theorem upvote_threshold_verification_witness:
  "(\<exists>w1 j. upvoteIncident defaultEnv (town 4) ''i1'' ''u1''
              = (Inr \<lparr>incident = Some j, alreadyVoted = False\<rparr>, w1)
          \<and> upvoteCount j = 5 \<and> status j = VERIFIED
          \<and> published w1 = [Emit ''incident:update'' None j,
                             Emit ''incident:updated'' (Some ''incident:i1'') j])
   \<and> (\<exists>w1 j. upvoteIncident defaultEnv (town 3) ''i1'' ''u1''
              = (Inr \<lparr>incident = Some j, alreadyVoted = False\<rparr>, w1)
          \<and> upvoteCount j = 4 \<and> status j = REPORTED \<and> published w1 = [])"
proof -
  have u: "''u1'' \<noteq> ''anonymous''" by simp
  have m: "\<And>n. ''u1'' \<in> set (users (db (town n)))" by (simp add: town_def)
  have r: "\<And>n. status (pothole n) = REPORTED" by (simp add: pothole_def)
  have s: "\<And>n. socketService (town n)" by (simp add: town_def)
  have p: "\<And>n. published (town n) = []" by (simp add: town_def published_def)
  have c: "\<And>n. upvoteCount (pothole n) = n" by (simp add: pothole_def)
  from upvote_threshold_verification[where w = "town 4" and env = defaultEnv, OF u town_found town_no_vote m r s]
  have a: "\<exists>w1 j. upvoteIncident defaultEnv (town 4) ''i1'' ''u1''
              = (Inr \<lparr>incident = Some j, alreadyVoted = False\<rparr>, w1)
          \<and> upvoteCount j = 5 \<and> status j = VERIFIED
          \<and> published w1 = [Emit ''incident:update'' None j,
                             Emit ''incident:updated'' (Some ''incident:i1'') j]"
    by (simp add: p c defaultEnv_def) blast
  from upvote_threshold_verification[where w = "town 3" and env = defaultEnv, OF u town_found town_no_vote m r s]
  have b: "\<exists>w1 j. upvoteIncident defaultEnv (town 3) ''i1'' ''u1''
              = (Inr \<lparr>incident = Some j, alreadyVoted = False\<rparr>, w1)
          \<and> upvoteCount j = 4 \<and> status j = REPORTED \<and> published w1 = []"
    by (simp add: p c defaultEnv_def) blast
  from a b show ?thesis by blast
qed

text \<open>
  C1. The claim does not hold of the code: the race is left unhandled. An authenticated
  upvote that finds no Vote at its lookup, and whose transaction then meets the Vote
  another request has committed in between, fails with the uniqueness violation P2002 on
  (userId, incidentId). \<^verbatim>\<open>upvoteIncident\<close> has no handler around the transaction, so the
  service rejects with that error, and \<open>errorHandler\<close> answers 409 with
  \<open>success = False\<close>. No interleaving turns a lookup that found no Vote into the outcome
  \<open>alreadyVoted = True\<close>. The very same request, made once the other has committed, finds
  the Vote at its lookup and is answered 200 with \<open>success = True\<close>, the stored incident
  and the message of a repeated vote: the two orders of the same requests are answered
  differently.
\<close>

theorem upvote_race_unhandled:
  assumes auth: "userId \<noteq> ''anonymous''" and uid: "userId \<noteq> []" and iid: "incidentId \<noteq> []"
      and check: "prisma_vote_findUnique (db w) userId incidentId = None"
      and lost: "prisma_vote_findUnique (between (db w)) userId incidentId \<noteq> None"
  shows "upvoteIncident_interleaved env between w incidentId userId
           = (Inl (PrismaClientKnownRequestError ''P2002'' [''userId'', ''incidentId'']),
              w\<lparr>db := between (db w)\<rparr>)
       \<and> upvoteIncidentController env between w incidentId (Some userId)
           = (\<lparr>statusCode = 409, success = False, data = None,
               message = ''A record with this userId, incidentId already exists''\<rparr>,
              w\<lparr>db := between (db w)\<rparr>)
       \<and> (\<forall>others r w1. upvoteIncident_interleaved env others w incidentId userId = (Inr r, w1)
              \<longrightarrow> \<not> alreadyVoted r)
       \<and> upvoteIncidentController env later (w\<lparr>db := between (db w)\<rparr>) incidentId (Some userId)
           = (\<lparr>statusCode = 200, success = True,
               data = prisma_incident_findUnique (between (db w)) incidentId,
               message = ''You have already upvoted this incident''\<rparr>,
              w\<lparr>db := between (db w)\<rparr>)"
proof -
  have tx: "upvoteTransaction (between (db w)) userId incidentId
      = Inl (PrismaClientKnownRequestError ''P2002'' [''userId'', ''incidentId''])"
    using lost by (simp add: upvoteTransaction_def prisma_vote_create_def)
  have svc: "upvoteIncident_interleaved env between w incidentId userId
           = (Inl (PrismaClientKnownRequestError ''P2002'' [''userId'', ''incidentId'']),
              w\<lparr>db := between (db w)\<rparr>)"
    using auth check tx by (simp add: upvoteIncident_interleaved_def)
  have ctl: "upvoteIncidentController env between w incidentId (Some userId)
           = (\<lparr>statusCode = 409, success = False, data = None,
               message = ''A record with this userId, incidentId already exists''\<rparr>,
              w\<lparr>db := between (db w)\<rparr>)"
    using svc uid iid by (simp add: upvoteIncidentController_def)
  have never: "\<forall>others r w1. upvoteIncident_interleaved env others w incidentId userId = (Inr r, w1)
              \<longrightarrow> \<not> alreadyVoted r"
    using auth check
    by (auto simp: upvoteIncident_interleaved_def Let_def
        split: sum.splits prod.splits if_splits)
  from lost obtain v where v: "prisma_vote_findUnique (between (db w)) userId incidentId = Some v"
    by blast
  have again: "upvoteIncident_interleaved env later (w\<lparr>db := between (db w)\<rparr>) incidentId userId
      = (Inr \<lparr>incident = prisma_incident_findUnique (between (db w)) incidentId,
              alreadyVoted = True\<rparr>, w\<lparr>db := between (db w)\<rparr>)"
    using auth v by (simp add: upvoteIncident_interleaved_def)
  have sib: "upvoteIncidentController env later (w\<lparr>db := between (db w)\<rparr>) incidentId (Some userId)
           = (\<lparr>statusCode = 200, success = True,
               data = prisma_incident_findUnique (between (db w)) incidentId,
               message = ''You have already upvoted this incident''\<rparr>,
              w\<lparr>db := between (db w)\<rparr>)"
    using again uid iid by (simp add: upvoteIncidentController_def)
  from svc ctl never sib show ?thesis by blast
qed

theorem upvote_race_unhandled_witness:
  "prisma_vote_findUnique (db (town 0)) ''u1'' ''i1'' = None
   \<and> prisma_vote_findUnique (concurrentVote ''u1'' ''i1'' (db (town 0))) ''u1'' ''i1'' \<noteq> None
   \<and> fst (upvoteIncident_interleaved defaultEnv (concurrentVote ''u1'' ''i1'') (town 0) ''i1'' ''u1'')
       = Inl (PrismaClientKnownRequestError ''P2002'' [''userId'', ''incidentId''])
   \<and> fst (upvoteIncidentController defaultEnv (concurrentVote ''u1'' ''i1'') (town 0)
        ''i1'' (Some ''u1''))
       = \<lparr>statusCode = 409, success = False, data = None,
          message = ''A record with this userId, incidentId already exists''\<rparr>
   \<and> fst (upvoteIncidentController defaultEnv (\<lambda>s. s) townVoted ''i1'' (Some ''u1''))
       = \<lparr>statusCode = 200, success = True, data = Some (pothole 1),
          message = ''You have already upvoted this incident''\<rparr>
   \<and> (\<exists>r w1. upvoteIncident_interleaved defaultEnv (\<lambda>s. s) (town 0) ''i1'' ''u1'' = (Inr r, w1)
          \<and> \<not> alreadyVoted r)"
proof -
  have u: "''u1'' \<noteq> ''anonymous''" by simp
  have m: "''u1'' \<in> set (users (db (town 0)))" by (simp add: town_def)
  from upvote_first_vote[OF u town_found town_no_vote m, of defaultEnv]
  have g: "\<exists>r w1. upvoteIncident_interleaved defaultEnv (\<lambda>s. s) (town 0) ''i1'' ''u1'' = (Inr r, w1)"
    unfolding upvoteIncident_def by blast
  have f: "prisma_incident_findUnique (concurrentVote ''u1'' ''i1'' (db (town 0))) ''i1''
      = Some (pothole 1)"
    by (simp add: concurrentVote_def upvoteTransaction_def prisma_vote_create_def
        prisma_vote_findUnique_def prisma_incident_findUnique_def prisma_incident_update_def
        town_def pothole_def increment_def Let_def)
  from upvote_race_unhandled[where w = "town 0" and env = defaultEnv
      and between = "concurrentVote ''u1'' ''i1''" and later = "\<lambda>s. s",
      OF _ _ _ town_no_vote town_race]
  have r: "fst (upvoteIncident_interleaved defaultEnv (concurrentVote ''u1'' ''i1'') (town 0) ''i1'' ''u1'')
       = Inl (PrismaClientKnownRequestError ''P2002'' [''userId'', ''incidentId''])"
    "fst (upvoteIncidentController defaultEnv (concurrentVote ''u1'' ''i1'') (town 0)
        ''i1'' (Some ''u1''))
       = \<lparr>statusCode = 409, success = False, data = None,
          message = ''A record with this userId, incidentId already exists''\<rparr>"
    "fst (upvoteIncidentController defaultEnv (\<lambda>s. s) townVoted ''i1'' (Some ''u1''))
       = \<lparr>statusCode = 200, success = True, data = Some (pothole 1),
          message = ''You have already upvoted this incident''\<rparr>"
    "\<forall>r w1. upvoteIncident_interleaved defaultEnv (\<lambda>s. s) (town 0) ''i1'' ''u1'' = (Inr r, w1)
          \<longrightarrow> \<not> alreadyVoted r"
    using f by (simp_all add: townVoted_def)
  from r(4) g have "\<exists>r w1. upvoteIncident_interleaved defaultEnv (\<lambda>s. s) (town 0) ''i1'' ''u1'' = (Inr r, w1)
          \<and> \<not> alreadyVoted r" by blast
  with r(1,2,3) town_no_vote[of 0] town_race show ?thesis by blast
qed

section \<open>Distance\<close>

text \<open>
  The haversine distance is bounded through \<open>\<bar>sin x\<bar> \<le> \<bar>x\<bar>\<close> and \<open>arctan x \<le> x\<close>: for two
  points whose half-angle differences are small it is at most
  \<open>EARTH_RADIUS_METERS * 2 * sqrt (2 * b)\<close>.
\<close>

lemma arctan_le_self: "0 \<le> x \<Longrightarrow> arctan x \<le> (x::real)"
proof -
  assume x: "0 \<le> x"
  have "(\<lambda>t. t - arctan t) 0 \<le> (\<lambda>t. t - arctan t) x"
  proof (rule DERIV_nonneg_imp_nondecreasing[OF x])
    fix t :: real
    have d: "((\<lambda>t. t - arctan t) has_real_derivative (1 - inverse (1 + t\<^sup>2))) (at t)"
      by (auto intro!: derivative_eq_intros)
    have "inverse (1 + t\<^sup>2) \<le> 1"
      by (simp add: inverse_le_1_iff)
    then have "0 \<le> 1 - inverse (1 + t\<^sup>2)" by simp
    with d show "\<exists>y. ((\<lambda>t. t - arctan t) has_real_derivative y) (at t) \<and> 0 \<le> y"
      by blast
  qed
  then show ?thesis by simp
qed

lemma sin_sq_le: "sin x * sin x \<le> x * (x::real)"
proof -
  have "\<bar>sin x\<bar> \<le> \<bar>x\<bar>" by (rule abs_sin_x_le_abs_x)
  then have "(sin x)\<^sup>2 \<le> x\<^sup>2" by (simp only: abs_le_square_iff)
  then show ?thesis by (simp add: power2_eq_square)
qed

lemma calculateDistance_le:
  assumes k: "0 \<le> cos (toRadians lat1) * cos (toRadians lat2)"
      and small: "(toRadians (lat2 - lat1) / 2)\<^sup>2 + (toRadians (lon2 - lon1) / 2)\<^sup>2 \<le> b"
      and b: "b \<le> 1 / 2"
  shows "calculateDistance lat1 lon1 lat2 lon2 \<le> EARTH_RADIUS_METERS * (2 * sqrt (2 * b))"
proof -
  define x where "x = toRadians (lat2 - lat1) / 2"
  define y where "y = toRadians (lon2 - lon1) / 2"
  define k where "k = cos (toRadians lat1) * cos (toRadians lat2)"
  define a where "a = sin x * sin x + k * sin y * sin y"
  have k1: "k \<le> 1"
  proof -
    have "\<bar>cos (toRadians lat1) * cos (toRadians lat2)\<bar> \<le> 1 * 1"
      unfolding abs_mult by (intro mult_mono) auto
    then show ?thesis by (simp add: k_def)
  qed
  have k0: "0 \<le> k" using k by (simp add: k_def)
  have sy: "0 \<le> sin y * sin y" by simp
  have "k * (sin y * sin y) \<le> 1 * (sin y * sin y)"
    by (rule mult_right_mono[OF k1 sy])
  also have "\<dots> \<le> y * y" using sin_sq_le[of y] by simp
  finally have ky: "k * sin y * sin y \<le> y * y" by (simp add: mult.assoc)
  have a0: "0 \<le> a"
    using k0 sy by (simp add: a_def mult.assoc)
  have "a \<le> x * x + y * y"
    using sin_sq_le[of x] ky by (simp add: a_def)
  also have "\<dots> \<le> b" using small by (simp add: x_def y_def power2_eq_square)
  finally have ab: "a \<le> b" .
  have a12: "a \<le> 1 / 2" using ab b by simp
  have pos: "0 < sqrt (1 - a)" using a12 by simp
  have eq: "atan2 (sqrt a) (sqrt (1 - a)) = arctan (sqrt a / sqrt (1 - a))"
    using pos by (simp add: atan2_def)
  have "sqrt a / sqrt (1 - a) = sqrt (a / (1 - a))" by (simp add: real_sqrt_divide)
  also have "\<dots> \<le> sqrt (2 * b)"
  proof (rule real_sqrt_le_mono)
    have "a / (1 - a) \<le> a / (1 / 2)"
      using a0 a12 by (intro divide_left_mono) auto
    also have "\<dots> = 2 * a" by simp
    also have "\<dots> \<le> 2 * b" using ab by simp
    finally show "a / (1 - a) \<le> 2 * b" .
  qed
  finally have q: "sqrt a / sqrt (1 - a) \<le> sqrt (2 * b)" .
  have q0: "0 \<le> sqrt a / sqrt (1 - a)" using a0 pos by simp
  have "arctan (sqrt a / sqrt (1 - a)) \<le> sqrt a / sqrt (1 - a)"
    by (rule arctan_le_self[OF q0])
  with q eq have "atan2 (sqrt a) (sqrt (1 - a)) \<le> sqrt (2 * b)" by simp
  then have "EARTH_RADIUS_METERS * (2 * atan2 (sqrt a) (sqrt (1 - a)))
      \<le> EARTH_RADIUS_METERS * (2 * sqrt (2 * b))"
    by (simp add: EARTH_RADIUS_METERS_def)
  moreover have "calculateDistance lat1 lon1 lat2 lon2
      = EARTH_RADIUS_METERS * (2 * atan2 (sqrt a) (sqrt (1 - a)))"
    by (simp add: calculateDistance_def Let_def a_def x_def y_def k_def)
  ultimately show ?thesis by simp
qed

lemma cos_deg_pos: "-90 < d \<Longrightarrow> d < 90 \<Longrightarrow> 0 < cos (toRadians d)"
proof -
  assume "-90 < d" "d < 90"
  then have "(-90) * pi < d * pi" "d * pi < 90 * pi"
    by (simp_all only: mult_strict_right_mono pi_gt_zero)
  then have "- (pi / 2) < toRadians d" "toRadians d < pi / 2"
    by (simp_all add: toRadians_def)
  then show ?thesis by (rule cos_gt_zero_pi)
qed

lemma scenario_distance: "calculateDistance (40.0005) (-75.0005) 40 (-75) \<le> 200"
proof -
  define t :: real where "t = 0.0005 * pi / 360"
  have t0: "0 \<le> t" by (simp add: t_def)
  have t4: "t \<le> 0.0005 * 4 / 360" using pi_less_4 by (simp add: t_def)
  have k: "0 \<le> cos (toRadians 40.0005) * cos (toRadians 40)"
    using cos_deg_pos[of 40] cos_deg_pos[of "40.0005"] by simp
  have small: "(toRadians (40 - 40.0005) / 2)\<^sup>2 + (toRadians (-75 - (-75.0005)) / 2)\<^sup>2 \<le> 2 * t\<^sup>2"
    by (simp add: toRadians_def t_def power2_eq_square)
  have tt: "t\<^sup>2 \<le> (0.0005 * 4 / 360)\<^sup>2" using t0 t4 by (intro power_mono) auto
  then have b: "2 * t\<^sup>2 \<le> 1 / 2" by (simp add: power2_eq_square)
  have "calculateDistance 40.0005 (-75.0005) 40 (-75)
      \<le> EARTH_RADIUS_METERS * (2 * sqrt (2 * (2 * t\<^sup>2)))"
    by (rule calculateDistance_le[OF k small b])
  also have "sqrt (2 * (2 * t\<^sup>2)) = 2 * t"
  proof -
    have "2 * (2 * t\<^sup>2) = (2 * t)\<^sup>2" by (simp add: power2_eq_square)
    then have "sqrt (2 * (2 * t\<^sup>2)) = \<bar>2 * t\<bar>" by (simp only: real_sqrt_abs)
    with t0 show ?thesis by simp
  qed
  also have "EARTH_RADIUS_METERS * (2 * (2 * t)) \<le> 200"
    using t4 by (simp add: EARTH_RADIUS_METERS_def)
  finally show ?thesis .
qed

text \<open>
  The code's haversine formula is the great-circle distance: with \<open>a\<close> the haversine
  term, \<open>1 - 2 * a\<close> is the inner product of the two position vectors, \<open>a\<close> lies in
  \<open>[0, 1]\<close> for all arguments, and \<open>2 * atan2 (sqrt a) (sqrt (1 - a))\<close> is the angle in
  \<open>[0, pi]\<close> with that cosine.
\<close>

lemma half_angle_sin: "2 * (sin (x / 2) * sin (x / 2)) = 1 - cos (x::real)"
proof -
  have "cos (2 * (x / 2)) = 1 - 2 * (sin (x / 2))\<^sup>2" by (rule cos_double_sin)
  moreover have "2 * (x / 2) = x" by simp
  ultimately show ?thesis by (simp add: power2_eq_square)
qed

lemma one_plus_cos: "0 \<le> 1 + cos (x::real)"
  using cos_ge_minus_one[of x] by linarith

lemma one_minus_cos: "0 \<le> 1 - cos (x::real)"
  using cos_le_one[of x] by linarith

lemma haversine_cosine:
  fixes p q l :: real
  shows "1 - 2 * (sin ((q - p) / 2) * sin ((q - p) / 2) + cos p * cos q * sin (l / 2) * sin (l / 2))
       = sin p * sin q + cos p * cos q * cos l"
proof -
  have a: "2 * (sin ((q - p) / 2) * sin ((q - p) / 2)) = 1 - cos (q - p)"
    by (rule half_angle_sin)
  have b: "2 * (sin (l / 2) * sin (l / 2)) = 1 - cos l"
    by (rule half_angle_sin)
  have "1 - 2 * (sin ((q - p) / 2) * sin ((q - p) / 2) + cos p * cos q * sin (l / 2) * sin (l / 2))
      = 1 - 2 * (sin ((q - p) / 2) * sin ((q - p) / 2)) - cos p * cos q * (2 * (sin (l / 2) * sin (l / 2)))"
    by (simp add: algebra_simps)
  also have "\<dots> = cos (q - p) - cos p * cos q * (1 - cos l)"
    unfolding a b by simp
  also have "\<dots> = sin p * sin q + cos p * cos q * cos l"
    by (simp add: cos_diff algebra_simps)
  finally show ?thesis .
qed

lemma inner_product_bounds:
  fixes p q l :: real
  shows "- 1 \<le> sin p * sin q + cos p * cos q * cos l"
    and "sin p * sin q + cos p * cos q * cos l \<le> 1"
proof -
  let ?d = "sin p * sin q + cos p * cos q * cos l"
  have up: "1 - ?d = (1 + cos l) / 2 * (1 - cos (p - q)) + (1 - cos l) / 2 * (1 + cos (p + q))"
    by (simp add: cos_diff cos_add field_simps)
  have lo: "1 + ?d = (1 + cos l) / 2 * (1 + cos (p - q)) + (1 - cos l) / 2 * (1 - cos (p + q))"
    by (simp add: cos_diff cos_add field_simps)
  have n: "0 \<le> (1 + cos l) / 2" "0 \<le> (1 - cos l) / 2"
    "0 \<le> 1 - cos (p - q)" "0 \<le> 1 + cos (p + q)" "0 \<le> 1 + cos (p - q)" "0 \<le> 1 - cos (p + q)"
    using one_plus_cos[of l] one_minus_cos[of l]
    by (simp_all only: one_plus_cos one_minus_cos zero_le_divide_iff) simp_all
  have "0 \<le> 1 - ?d" unfolding up by (intro add_nonneg_nonneg mult_nonneg_nonneg n)
  then show "?d \<le> 1" by simp
  have "0 \<le> 1 + ?d" unfolding lo by (intro add_nonneg_nonneg mult_nonneg_nonneg n)
  then show "- 1 \<le> ?d" by simp
qed

lemma atan2_sqrt_arccos:
  fixes a :: real
  assumes a0: "0 \<le> a" and a1: "a \<le> 1"
  shows "2 * atan2 (sqrt a) (sqrt (1 - a)) = arccos (1 - 2 * a)"
proof (cases "a = 1")
  case True
  then show ?thesis by (simp add: atan2_def)
next
  case False
  with a1 have lt: "a < 1" by simp
  let ?s = "sqrt a"
  have s0: "0 \<le> ?s" using a0 by simp
  have s1: "?s < 1" using lt a0 by (simp add: real_sqrt_lt_1_iff)
  have sq: "?s\<^sup>2 = a" using a0 by simp
  have pos: "0 < sqrt (1 - a)" using lt by simp
  have "atan2 ?s (sqrt (1 - a)) = arctan (?s / sqrt (1 - ?s\<^sup>2))"
    using pos by (simp add: atan2_def sq)
  also have "\<dots> = arcsin ?s"
    using s0 s1 by (intro arcsin_arctan[symmetric]) linarith+
  finally have eq: "atan2 ?s (sqrt (1 - a)) = arcsin ?s" .
  have lo: "0 \<le> arcsin ?s"
    using arcsin_le_arcsin[of 0 ?s] s0 s1 by simp
  have hi: "arcsin ?s \<le> pi / 2"
    using arcsin_ubound[of ?s] s0 s1 by simp
  have "cos (2 * arcsin ?s) = 1 - 2 * (sin (arcsin ?s))\<^sup>2" by (rule cos_double_sin)
  also have "\<dots> = 1 - 2 * a"
  proof -
    have "sin (arcsin ?s) = ?s" using s0 s1 by (intro sin_arcsin) linarith+
    then show ?thesis by (simp only: sq)
  qed
  finally have c: "cos (2 * arcsin ?s) = 1 - 2 * a" .
  have "arccos (cos (2 * arcsin ?s)) = 2 * arcsin ?s"
    using lo hi by (intro arccos_cos) simp_all
  then show ?thesis unfolding eq c by simp
qed

lemma calculateDistance_great_circle:
  "calculateDistance lat1 lon1 lat2 lon2 = greatCircleDistance lat1 lon1 lat2 lon2"
proof -
  define p where "p = lat1 * pi / 180"
  define q where "q = lat2 * pi / 180"
  define l where "l = (lon2 - lon1) * pi / 180"
  define a where "a = sin ((q - p) / 2) * sin ((q - p) / 2) + cos p * cos q * sin (l / 2) * sin (l / 2)"
  have hc: "1 - 2 * a = sin p * sin q + cos p * cos q * cos l"
    unfolding a_def by (rule haversine_cosine)
  have a0: "0 \<le> a" and a1: "a \<le> 1"
    using inner_product_bounds[of p q l] hc by simp_all
  have r: "toRadians (lat2 - lat1) = q - p" "toRadians (lon2 - lon1) = l"
    "toRadians lat1 = p" "toRadians lat2 = q"
    by (simp_all add: toRadians_def p_def q_def l_def left_diff_distrib diff_divide_distrib)
  have "calculateDistance lat1 lon1 lat2 lon2 = EARTH_RADIUS_METERS * (2 * atan2 (sqrt a) (sqrt (1 - a)))"
    unfolding calculateDistance_def Let_def r a_def ..
  also have "\<dots> = 6371000 * arccos (1 - 2 * a)"
    unfolding atan2_sqrt_arccos[OF a0 a1] EARTH_RADIUS_METERS_def ..
  also have "\<dots> = greatCircleDistance lat1 lon1 lat2 lon2"
    unfolding hc greatCircleDistance_def p_def q_def l_def ..
  finally show ?thesis .
qed

text \<open>
  The distance of the two points of the scenario in numbers. From \<open>sin (pi / 6) = 1 / 2\<close>
  and the bounds \<open>x - x ^ 3 / 6 \<le> sin x \<le> x - x ^ 3 / 6 + x ^ 5 / 120\<close> of the sine series,
  \<open>3.12 \<le> pi \<le> 3.15\<close>; by the half-angle formula the cosines of the two latitudes lie
  between 0.7549 and 0.7695; so the distance lies between 69 m and 71 m.
\<close>

lemma pi_ge_3: "3 \<le> pi"
proof -
  have "sin (pi / 6) \<le> pi / 6" by (intro sin_x_le_x) simp
  then show ?thesis by (simp add: sin_30)
qed

lemma sin_cubic: "0 \<le> x \<Longrightarrow> x - x ^ 3 / 6 \<le> sin (x::real)"
proof -
  assume x: "0 \<le> x"
  have s: "(\<Sum>m<3. sin_coeff m * x ^ m) = x"
    by (simp add: numeral_3_eq_3 sin_coeff_Suc cos_coeff_Suc)
  have f3: "(fact 3 :: real) = 6" by (simp add: fact_numeral)
  have f: "inverse (fact 3) * \<bar>x\<bar> ^ 3 = x ^ 3 / 6"
    unfolding f3 using x by simp
  from Maclaurin_sin_bound[of x 3] have "\<bar>sin x - x\<bar> \<le> x ^ 3 / 6"
    unfolding s f .
  then show ?thesis by linarith
qed

lemma pi_le_315: "pi \<le> 3.15"
proof -
  define u where "u = pi / 6"
  have u0: "0 \<le> u" by (simp add: u_def)
  have "u - u ^ 3 / 6 \<le> sin u" by (rule sin_cubic[OF u0])
  then have s: "u \<le> 1 / 2 + u ^ 3 / 6" by (simp add: u_def sin_30)
  have b0: "u \<le> 2 / 3" using pi_less_4 by (simp add: u_def)
  have "u ^ 3 \<le> (2 / 3) ^ 3" by (rule power_mono[OF b0 u0])
  with s have b1: "u \<le> 0.55" by (simp add: power3_eq_cube)
  have "u ^ 3 \<le> 0.55 ^ 3" by (rule power_mono[OF b1 u0])
  with s have b2: "u \<le> 0.528" by (simp add: power3_eq_cube)
  have "u ^ 3 \<le> 0.528 ^ 3" by (rule power_mono[OF b2 u0])
  with s have b3: "u \<le> 0.525" by (simp add: power3_eq_cube)
  then show ?thesis by (simp add: u_def)
qed

lemma sin_quintic: "0 \<le> x \<Longrightarrow> sin (x::real) \<le> x - x ^ 3 / 6 + x ^ 5 / 120"
proof -
  assume x: "0 \<le> x"
  have s: "(\<Sum>m<5. sin_coeff m * x ^ m) = x - x ^ 3 / 6"
    by (simp add: eval_nat_numeral sin_coeff_Suc cos_coeff_Suc)
  have f5: "(fact 5 :: real) = 120" by (simp add: fact_numeral)
  have f: "inverse (fact 5) * \<bar>x\<bar> ^ 5 = x ^ 5 / 120"
    unfolding f5 using x by simp
  from Maclaurin_sin_bound[of x 5] have "\<bar>sin x - (x - x ^ 3 / 6)\<bar> \<le> x ^ 5 / 120"
    unfolding s f .
  then show ?thesis by linarith
qed

lemma pi_ge_312: "3.12 \<le> pi"
proof -
  define u where "u = pi / 6"
  have l: "1 / 2 \<le> u" using pi_ge_3 by (simp add: u_def)
  have h: "u \<le> 0.525" using pi_le_315 by (simp add: u_def)
  have u0: "0 \<le> u" using l by simp
  have "sin u \<le> u - u ^ 3 / 6 + u ^ 5 / 120" by (rule sin_quintic[OF u0])
  then have s: "1 / 2 + u ^ 3 / 6 - u ^ 5 / 120 \<le> u" by (simp add: u_def sin_30)
  have c: "(1 / 2) ^ 3 \<le> u ^ 3" by (rule power_mono[OF l]) simp
  have q: "u ^ 5 \<le> 0.525 ^ 5" by (rule power_mono[OF h u0])
  have c': "1 / 8 \<le> u ^ 3" using c by (simp add: power_divide)
  have q': "u ^ 5 \<le> 4 / 100" using q by (simp add: power_divide)
  have "52 / 100 \<le> 1 / 2 + u ^ 3 / 6 - u ^ 5 / 120" using c' q' by linarith
  with s have "52 / 100 \<le> u" by linarith
  then show ?thesis by (simp add: u_def)
qed

lemma cos_scenario_latitude:
  assumes "40 \<le> d" "d \<le> 40.0005"
  shows "7549 / 10000 \<le> cos (toRadians d)" "cos (toRadians d) \<le> 7695 / 10000"
proof -
  define h where "h = toRadians d / 2"
  have hl: "34666 / 100000 \<le> h"
  proof -
    have "40 * (3.12 / 180) \<le> d * (pi / 180)"
      using assms(1) pi_ge_312 by (intro mult_mono) simp_all
    then show ?thesis by (simp add: h_def toRadians_def)
  qed
  have hu: "h \<le> 350005 / 1000000"
  proof -
    have "d * (pi / 180) \<le> 40.0005 * (3.15 / 180)"
      using assms pi_le_315 by (intro mult_mono) simp_all
    then show ?thesis by (simp add: h_def toRadians_def)
  qed
  have h0: "0 \<le> h" using hl by simp
  have c: "cos (toRadians d) = 1 - 2 * (sin h * sin h)"
    using half_angle_sin[of "toRadians d"] by (simp add: h_def)
  have su: "sin h \<le> 350005 / 1000000" using sin_x_le_x[OF h0] hu by simp
  have "h ^ 3 \<le> (350005 / 1000000) ^ 3" by (rule power_mono[OF hu h0])
  then have "34666 / 100000 - (350005 / 1000000) ^ 3 / 6 \<le> h - h ^ 3 / 6" using hl by linarith
  also have "\<dots> \<le> sin h" by (rule sin_cubic[OF h0])
  finally have sl: "33951 / 100000 \<le> sin h" by (simp add: power3_eq_cube)
  have s0: "0 \<le> sin h" using sl by simp
  have "sin h * sin h \<le> (350005 / 1000000) * (350005 / 1000000)"
    by (rule mult_mono[OF su su _ s0]) simp
  then show "7549 / 10000 \<le> cos (toRadians d)" unfolding c by simp
  have "(33951 / 100000) * (33951 / 100000) \<le> sin h * sin h"
    by (rule mult_mono[OF sl sl s0]) simp
  then show "cos (toRadians d) \<le> 7695 / 10000" unfolding c by simp
qed

lemma atan2_sqrt_arcsin:
  fixes a :: real
  assumes a0: "0 \<le> a" and lt: "a < 1"
  shows "atan2 (sqrt a) (sqrt (1 - a)) = arcsin (sqrt a)"
proof -
  let ?s = "sqrt a"
  have s0: "0 \<le> ?s" using a0 by simp
  have s1: "?s < 1" using lt a0 by (simp add: real_sqrt_lt_1_iff)
  have sq: "?s\<^sup>2 = a" using a0 by simp
  have pos: "0 < sqrt (1 - a)" using lt by simp
  have "atan2 ?s (sqrt (1 - a)) = arctan (?s / sqrt (1 - ?s\<^sup>2))"
    using pos by (simp add: atan2_def sq)
  also have "\<dots> = arcsin ?s"
    using s0 s1 by (intro arcsin_arctan[symmetric]) linarith+
  finally show ?thesis .
qed

lemma arcsin_ge_self: "0 \<le> x \<Longrightarrow> x \<le> 1 \<Longrightarrow> x \<le> arcsin (x::real)"
proof -
  assume x: "0 \<le> x" "x \<le> 1"
  have "0 \<le> arcsin x" using arcsin_le_arcsin[of 0 x] x by simp
  then have "sin (arcsin x) \<le> arcsin x" by (rule sin_x_le_x)
  then show ?thesis using x by simp
qed

lemma scenario_haversine:
  assumes t_def: "t = 0.0005 * pi / 360"
      and k_def: "k = cos (toRadians 40.0005) * cos (toRadians 40)"
  shows "calculateDistance 40.0005 (-75.0005) 40 (-75)
     = EARTH_RADIUS_METERS *
         (2 * atan2 (sqrt (sin t * sin t * (1 + k))) (sqrt (1 - sin t * sin t * (1 + k))))"
proof -
  have dl: "toRadians (40 - 40.0005) / 2 = - t" by (simp add: toRadians_def t_def)
  have dn: "toRadians (-75 - (-75.0005)) / 2 = t" by (simp add: toRadians_def t_def)
  have e: "sin (- t) * sin (- t) + cos (toRadians 40.0005) * cos (toRadians 40) * sin t * sin t
      = sin t * sin t * (1 + k)"
    by (simp add: k_def algebra_simps)
  show ?thesis
    unfolding calculateDistance_def Let_def dl dn e ..
qed

lemma scenario_distance_bounds:
  "69 < calculateDistance 40.0005 (-75.0005) 40 (-75)"
  "calculateDistance 40.0005 (-75.0005) 40 (-75) < 71"
proof -
  define t :: real where "t = 0.0005 * pi / 360"
  define k where "k = cos (toRadians 40.0005) * cos (toRadians 40)"
  define a where "a = sin t * sin t * (1 + k)"
  have d: "calculateDistance 40.0005 (-75.0005) 40 (-75)
     = EARTH_RADIUS_METERS * (2 * atan2 (sqrt a) (sqrt (1 - a)))"
    unfolding a_def by (rule scenario_haversine[OF t_def k_def])
  have tl: "13 / 3000000 \<le> t" using pi_ge_312 by (simp add: t_def)
  have tu: "t \<le> 7 / 1600000" using pi_le_315 by (simp add: t_def)
  have t0: "0 \<le> t" using tl by simp
  have su: "sin t \<le> 7 / 1600000" using sin_x_le_x[OF t0] tu by simp
  have "t ^ 3 \<le> (7 / 1600000) ^ 3" by (rule power_mono[OF tu t0])
  then have "13 / 3000000 - (7 / 1600000) ^ 3 / 6 \<le> t - t ^ 3 / 6" using tl by linarith
  also have "\<dots> \<le> sin t" by (rule sin_cubic[OF t0])
  finally have sl: "43333 / 10 ^ 10 \<le> sin t" by (simp add: power3_eq_cube)
  have s0: "0 \<le> sin t" using sl by simp
  have ssl: "(43333 / 10 ^ 10) * (43333 / 10 ^ 10) \<le> sin t * sin t"
    by (rule mult_mono[OF sl sl s0]) simp
  have ssu: "sin t * sin t \<le> (7 / 1600000) * (7 / 1600000)"
    by (rule mult_mono[OF su su _ s0]) simp
  define c1 where "c1 = cos (toRadians 40.0005)"
  define c2 where "c2 = cos (toRadians 40)"
  have l1: "7549 / 10000 \<le> c1" and u1: "c1 \<le> 7695 / 10000"
    unfolding c1_def by (intro cos_scenario_latitude; simp)+
  have l2: "7549 / 10000 \<le> c2" and u2: "c2 \<le> 7695 / 10000"
    unfolding c2_def by (intro cos_scenario_latitude; simp)+
  have p1: "0 \<le> c1" using l1 by linarith
  have p2: "0 \<le> c2" using l2 by linarith
  have kc: "k = c1 * c2" by (simp add: k_def c1_def c2_def)
  have "(7549 / 10000) * (7549 / 10000) \<le> c1 * c2" by (rule mult_mono[OF l1 l2 p1]) simp
  then have kl: "56987 / 100000 \<le> k" by (simp add: kc)
  have "c1 * c2 \<le> (7695 / 10000) * (7695 / 10000)" by (rule mult_mono[OF u1 u2 _ p2]) simp
  then have ku: "k \<le> 59214 / 100000" by (simp add: kc)
  have k1: "156987 / 100000 \<le> 1 + k" and k2: "1 + k \<le> 159214 / 100000" and k0: "0 \<le> 1 + k"
    using kl ku by simp_all
  have ss0: "0 \<le> sin t * sin t" by simp
  have al: "(43333 / 10 ^ 10) * (43333 / 10 ^ 10) * (156987 / 100000) \<le> a"
    unfolding a_def by (rule mult_mono[OF ssl k1 ss0]) simp
  have au: "a \<le> (7 / 1600000) * (7 / 1600000) * (159214 / 100000)"
    unfolding a_def by (rule mult_mono[OF ssu k2 _ k0]) simp
  have a0: "0 \<le> a" using al by simp
  have a1: "a < 1" using au by simp
  have eq: "atan2 (sqrt a) (sqrt (1 - a)) = arcsin (sqrt a)"
    by (rule atan2_sqrt_arcsin[OF a0 a1])
  have r1: "sqrt a \<le> 1" using a1 a0 by simp
  have "(69 / 12742000)\<^sup>2 < a" using al by (simp add: power2_eq_square)
  then have "69 / 12742000 < sqrt a" by (rule real_less_rsqrt)
  also have "\<dots> \<le> arcsin (sqrt a)" using r1 a0 by (intro arcsin_ge_self) simp_all
  finally have "69 / 12742000 < atan2 (sqrt a) (sqrt (1 - a))" by (simp only: eq)
  then show "69 < calculateDistance 40.0005 (-75.0005) 40 (-75)"
    unfolding d by (simp add: EARTH_RADIUS_METERS_def)
  have pos: "0 < sqrt (1 - a)" using a1 by simp
  have at: "atan2 (sqrt a) (sqrt (1 - a)) = arctan (sqrt a / sqrt (1 - a))"
    using pos by (simp add: atan2_def)
  have q0: "0 \<le> sqrt a / sqrt (1 - a)" using a0 pos by simp
  have "a < (71 / 12742000)\<^sup>2 * (1 - a)" using au by (simp add: power2_eq_square)
  then have "a / (1 - a) < (71 / 12742000)\<^sup>2" using a1 by (simp add: pos_divide_less_eq)
  then have "sqrt (a / (1 - a)) < 71 / 12742000" by (intro real_less_lsqrt) simp_all
  then have "sqrt a / sqrt (1 - a) < 71 / 12742000" by (simp add: real_sqrt_divide)
  with arctan_le_self[OF q0] have "atan2 (sqrt a) (sqrt (1 - a)) < 71 / 12742000"
    unfolding at by linarith
  then show "calculateDistance 40.0005 (-75.0005) 40 (-75) < 71"
    unfolding d by (simp add: EARTH_RADIUS_METERS_def)
qed

section \<open>Case-insensitive match\<close>








section \<open>Creation\<close>

lemma Date_of_int: "Date (of_int n) = n"
  by (simp add: Date_def)

lemma toUpperCase_FIRE: "toUpperCase ''FIRE'' = ''FIRE''"
  by (simp add: toUpperCase_def toUpperChar_def)

lemma persistIncident_fresh:
  assumes "prisma_incident_findUnique (db w) newId = None"
  shows "\<exists>created w1. persistIncident env w input url newId now = (Inr created, w1)
     \<and> created = \<lparr>id' = newId, incidentType = toUpperCase (in_incidentType input),
          description = (if isDuplicate (checkForDuplicate env (db w) (in_incidentType input)
                              (in_latitude input) (in_longitude input) now)
                         then ''[POTENTIAL DUPLICATE] '' @ in_description input
                         else in_description input),
          latitude = in_latitude input, longitude = in_longitude input,
          severity = in_severity input,
          status = (if isDuplicate (checkForDuplicate env (db w) (in_incidentType input)
                              (in_latitude input) (in_longitude input) now)
                    then FLAGGED else REPORTED),
          upvoteCount = 0, mediaUrl = url, createdAt = now, updatedAt = now\<rparr>
     \<and> incidents (db w1) = incidents (db w) @ [created]
     \<and> votes (db w1) = votes (db w) \<and> adminNotes (db w1) = adminNotes (db w)
     \<and> users (db w1) = users (db w)
     \<and> socketService w1 = socketService w
     \<and> effects w1 = effects w @ Write ''incident.create'' #
           (if socketService w then [Emit ''incident:new'' None created] else [])"
  using assms
  by (simp add: persistIncident_def prisma_incident_create_def Let_def notifyNew_def
      emitNewIncident_def commit_def)

lemma findUnique_snoc:
  "prisma_incident_findUnique s k = None \<Longrightarrow> incidents s1 = incidents s @ [row] \<Longrightarrow>
   id' row = k \<Longrightarrow> prisma_incident_findUnique s1 k = Some row"
  by (simp add: prisma_incident_findUnique_def find_snoc)

lemma lon_box:
  fixes c :: real
  assumes "0 < c" "c \<le> 1"
  shows "-75.0005 - 200 / 111000 / c \<le> -75 \<and> -75 \<le> -75.0005 + 200 / 111000 / c"
proof -
  have "(200 / 111000) * c \<le> 200 / 111000" using assms by simp
  then have "200 / 111000 \<le> 200 / 111000 / c"
    using assms(1) by (simp add: pos_le_divide_eq)
  then show ?thesis by simp
qed

lemma cosLatitude_cos: "cos (lat * pi / 180) \<noteq> 0 \<Longrightarrow> cosLatitude lat = cos (lat * pi / 180)"
  by (simp add: cosLatitude_def)

lemma duplicateWhere_scenario:
  assumes ty: "equalsInsensitive (incidentType a) ty"
      and la: "latitude a = 40" and lo: "longitude a = -75"
      and st: "status a = REPORTED" and win: "tB - 600000 \<le> createdAt a"
  shows "duplicateWhere defaultEnv ty 40.0005 (-75.0005) tB a"
proof -
  have c0: "0 < cos (40.0005 * pi / 180)"
    using cos_deg_pos[of "40.0005"] by (simp add: toRadians_def)
  have c1: "cos (40.0005 * pi / 180) \<le> 1" by (rule cos_le_one)
  have cl: "cosLatitude 40.0005 = cos (40.0005 * pi / 180)"
    using c0 by (intro cosLatitude_cos) simp
  have d: "Date (of_int tB - 10 * 60 * 1000) = tB - 600000"
  proof -
    have "of_int tB - 10 * 60 * 1000 = (of_int (tB - 600000) :: real)" by simp
    then show ?thesis by (simp only: Date_of_int)
  qed
  show ?thesis
    unfolding duplicateWhere_def Let_def cl
    apply (intro conjI)
    subgoal using ty by simp
    subgoal using d win by (simp add: defaultEnv_def)
    subgoal using la by (simp add: defaultEnv_def)
    subgoal using la by (simp add: defaultEnv_def)
    subgoal using lon_box[OF c0 c1] lo by (simp add: defaultEnv_def)
    subgoal using lon_box[OF c0 c1] lo by (simp add: defaultEnv_def)
    subgoal using st by simp
    subgoal using st by simp
    done
qed

lemma checkForDuplicate_scenario:
  assumes one: "incidents s = [a]"
      and ty: "equalsInsensitive (incidentType a) ty"
      and la: "latitude a = 40" and lo: "longitude a = -75"
      and st: "status a = REPORTED" and win: "tB - 600000 \<le> createdAt a"
  shows "recentIncidents defaultEnv s ty 40.0005 (-75.0005) tB = [a]"
    and "checkForDuplicate defaultEnv s ty 40.0005 (-75.0005) tB
     = \<lparr>isDuplicate = True, duplicateOf = Some (id' a), reason = Some (200, 10)\<rparr>"
proof -
  show r: "recentIncidents defaultEnv s ty 40.0005 (-75.0005) tB = [a]"
    using duplicateWhere_scenario[OF ty la lo st win] one
    by (simp add: recentIncidents_def)
  have "isWithinDistance 40.0005 (-75.0005) (latitude a) (longitude a)
          (DUPLICATE_DISTANCE_METERS defaultEnv)"
    using scenario_distance la lo by (simp add: isWithinDistance_def defaultEnv_def)
  then show "checkForDuplicate defaultEnv s ty 40.0005 (-75.0005) tB
     = \<lparr>isDuplicate = True, duplicateOf = Some (id' a), reason = Some (200, 10)\<rparr>"
    unfolding checkForDuplicate_def r by (simp add: defaultEnv_def)
qed

lemma FIRE_FIRE: "equalsInsensitive ''FIRE'' ''FIRE''"
  by (simp add: equalsInsensitive_def)


lemma schema_FIRE:
  assumes "10 \<le> length d" "length d \<le> 2000" "-90 \<le> la" "la \<le> 90" "-180 \<le> lo" "lo \<le> 180"
  shows "createIncidentSchema \<lparr>body_incidentType = ''FIRE'', body_description = d,
            body_latitude = la, body_longitude = lo, body_severity = None\<rparr>
     = Inr \<lparr>in_incidentType = ''FIRE'', in_description = d, in_latitude = la,
            in_longitude = lo, in_severity = MEDIUM\<rparr>"
  using assms
  by (simp add: createIncidentSchema_def toUpperCase_FIRE incidentTypes_def Let_def)

lemma afterA_incidents:
  "incidents (db (afterA k)) =
     [\<lparr>id' = k, incidentType = ''FIRE'', description = ''Fire at dock'', latitude = 40,
       longitude = -75, severity = MEDIUM, status = REPORTED, upvoteCount = 0,
       mediaUrl = None, createdAt = 1000, updatedAt = 1000\<rparr>]"
  by (simp add: afterA_def createIncidentController_def bodyA_def createIncidentSchema_def
      toUpperCase_def toUpperChar_def incidentTypes_def createIncident_def persistIncident_def
      checkForDuplicate_def recentIncidents_def prisma_incident_create_def
      prisma_incident_findUnique_def notifyNew_def emitNewIncident_def commit_def
      emptyWorld_def Let_def)


lemma afterA_check:
  "checkForDuplicate defaultEnv (db (afterA k)) ''FIRE'' 40.0005 (-75.0005) 31000
     = \<lparr>isDuplicate = True, duplicateOf = Some k, reason = Some (200, 10)\<rparr>"
  using checkForDuplicate_scenario(2)[where tB = 31000 and ty = "''FIRE''",
      OF afterA_incidents[of k]] FIRE_FIRE
  by simp


lemma afterA_fresh: "k \<noteq> ''B'' \<Longrightarrow> prisma_incident_findUnique (db (afterA k)) ''B'' = None"
  by (simp add: prisma_incident_findUnique_def afterA_incidents)

lemma afterA_world:
  "socketService (afterA k)"
  "effects (afterA k) =
     [Write ''incident.create'',
      Emit ''incident:new'' None
        \<lparr>id' = k, incidentType = ''FIRE'', description = ''Fire at dock'', latitude = 40,
         longitude = -75, severity = MEDIUM, status = REPORTED, upvoteCount = 0,
         mediaUrl = None, createdAt = 1000, updatedAt = 1000\<rparr>]"
  by (simp_all add: afterA_def createIncidentController_def bodyA_def createIncidentSchema_def
      toUpperCase_def toUpperChar_def incidentTypes_def createIncident_def persistIncident_def
      checkForDuplicate_def recentIncidents_def prisma_incident_create_def
      prisma_incident_findUnique_def notifyNew_def emitNewIncident_def commit_def
      emptyWorld_def Let_def)

lemma createB_result:
  assumes "k \<noteq> ''B''"
  shows "fst (createB k)
           = \<lparr>statusCode = 201, success = True, data = Some flaggedB,
              message = ''Incident reported and flagged as potential duplicate''\<rparr>"
    and "incidents (db (snd (createB k))) = incidents (db (afterA k)) @ [flaggedB]"
    and "effects (snd (createB k))
           = effects (afterA k) @ [Write ''incident.create'', Emit ''incident:new'' None flaggedB]"
proof -
  let ?inB = "\<lparr>in_incidentType = ''FIRE'', in_description = ''Smoke near dock'',
               in_latitude = 40.0005, in_longitude = -75.0005, in_severity = MEDIUM\<rparr>"
  have s: "createIncidentSchema bodyB = Inr ?inB"
    unfolding bodyB_def by (intro schema_FIRE) simp_all
  from persistIncident_fresh[where env = defaultEnv and input = ?inB and url = None
      and now = 31000, OF afterA_fresh[OF assms]]
    afterA_check[of k] afterA_world(1)[of k]
  obtain b wB where B: "persistIncident defaultEnv (afterA k) ?inB None ''B'' 31000 = (Inr b, wB)"
    "b = flaggedB"
    "incidents (db wB) = incidents (db (afterA k)) @ [b]"
    "effects wB = effects (afterA k) @ [Write ''incident.create'', Emit ''incident:new'' None b]"
    unfolding flaggedB_def by (auto simp: toUpperCase_FIRE)
  have c: "createB k = (\<lparr>statusCode = 201, success = True, data = Some flaggedB,
              message = ''Incident reported and flagged as potential duplicate''\<rparr>, wB)"
    unfolding createB_def createIncidentController_def s createIncident_def
    using B(1,2) by (simp add: flaggedB_def)
  show "fst (createB k)
           = \<lparr>statusCode = 201, success = True, data = Some flaggedB,
              message = ''Incident reported and flagged as potential duplicate''\<rparr>"
    by (simp add: c)
  show "incidents (db (snd (createB k))) = incidents (db (afterA k)) @ [flaggedB]"
    using B(2,3) by (simp add: c)
  show "effects (snd (createB k))
           = effects (afterA k) @ [Write ''incident.create'', Emit ''incident:new'' None flaggedB]"
    using B(2,4) by (simp add: c)
qed

text \<open>
  C4. A creation whose id is new and whose media, if any, the store accepts always
  persists the incident: with status FLAGGED and the description prefixed by the
  duplicate marker when the duplicate check flags it, with status REPORTED and the
  description as given otherwise. The duplicate check never blocks the creation.
\<close>

theorem create_status_follows_duplicate_check:
  assumes fresh: "prisma_incident_findUnique (db w) newId = None"
      and media: "mediaBuffer = None
                  \<or> (\<exists>buffer r. mediaBuffer = Some buffer
                        \<and> uploadToCloudinary upload_stream buffer ''incidents'' = Inr r)"
  shows "\<exists>created w1.
       createIncident env upload_stream w input mediaBuffer newId now = (Inr created, w1)
     \<and> prisma_incident_findUnique (db w1) newId = Some created
     \<and> (if isDuplicate (checkForDuplicate env (db w) (in_incidentType input)
                           (in_latitude input) (in_longitude input) now)
         then status created = FLAGGED
            \<and> description created = ''[POTENTIAL DUPLICATE] '' @ in_description input
         else status created = REPORTED \<and> description created = in_description input)"
proof -
  from media consider "mediaBuffer = None"
    | buffer r where "mediaBuffer = Some buffer"
        "uploadToCloudinary upload_stream buffer ''incidents'' = Inr r"
    by blast
  then show ?thesis
  proof cases
    case 1
    from persistIncident_fresh[OF fresh, of env input None now] obtain created w1 where p:
      "persistIncident env w input None newId now = (Inr created, w1)"
      "id' created = newId" "incidents (db w1) = incidents (db w) @ [created]"
      "status created = (if isDuplicate (checkForDuplicate env (db w) (in_incidentType input)
                              (in_latitude input) (in_longitude input) now)
                    then FLAGGED else REPORTED)"
      "description created = (if isDuplicate (checkForDuplicate env (db w) (in_incidentType input)
                              (in_latitude input) (in_longitude input) now)
                         then ''[POTENTIAL DUPLICATE] '' @ in_description input
                         else in_description input)"
      by force
    have "createIncident env upload_stream w input mediaBuffer newId now = (Inr created, w1)"
      using 1 p(1) by (simp add: createIncident_def)
    moreover have "prisma_incident_findUnique (db w1) newId = Some created"
      by (rule findUnique_snoc[OF fresh p(3) p(2)])
    ultimately show ?thesis using p(4,5) by auto
  next
    case 2
    let ?w = "w\<lparr>effects := effects w @ [Upload ''anginat/incidents'' buffer]\<rparr>"
    have fresh': "prisma_incident_findUnique (db ?w) newId = None" using fresh by simp
    from persistIncident_fresh[OF fresh', of env input "Some (secure_url r)" now]
    obtain created w1 where p:
      "persistIncident env ?w input (Some (secure_url r)) newId now = (Inr created, w1)"
      "id' created = newId" "incidents (db w1) = incidents (db ?w) @ [created]"
      "status created = (if isDuplicate (checkForDuplicate env (db w) (in_incidentType input)
                              (in_latitude input) (in_longitude input) now)
                    then FLAGGED else REPORTED)"
      "description created = (if isDuplicate (checkForDuplicate env (db w) (in_incidentType input)
                              (in_latitude input) (in_longitude input) now)
                         then ''[POTENTIAL DUPLICATE] '' @ in_description input
                         else in_description input)"
      by force
    have "createIncident env upload_stream w input mediaBuffer newId now = (Inr created, w1)"
      using 2 p(1) by (simp add: createIncident_def)
    moreover have "prisma_incident_findUnique (db w1) newId = Some created"
      by (rule findUnique_snoc[OF fresh' p(3) p(2)])
    ultimately show ?thesis using p(4,5) by auto
  qed
qed

theorem create_status_follows_duplicate_check_witness:
  "(\<exists>created w1.
       createIncident defaultEnv cloudUp (afterA ''A'') inputB None ''B'' 31000 = (Inr created, w1)
     \<and> prisma_incident_findUnique (db w1) ''B'' = Some created
     \<and> status created = FLAGGED
     \<and> description created = ''[POTENTIAL DUPLICATE] Smoke near dock'')
   \<and> (\<exists>created w1.
       createIncident defaultEnv cloudUp emptyWorld inputB None ''B'' 31000 = (Inr created, w1)
     \<and> prisma_incident_findUnique (db w1) ''B'' = Some created
     \<and> status created = REPORTED
     \<and> description created = ''Smoke near dock'')"
proof -
  have f1: "prisma_incident_findUnique (db (afterA ''A'')) ''B'' = None"
    by (rule afterA_fresh) simp
  have f2: "prisma_incident_findUnique (db emptyWorld) ''B'' = None"
    by (simp add: prisma_incident_findUnique_def emptyWorld_def)
  have m: "(None :: string option) = None
      \<or> (\<exists>buffer r. (None :: string option) = Some buffer
            \<and> uploadToCloudinary cloudUp buffer ''incidents'' = Inr r)"
    by simp
  have d1: "isDuplicate (checkForDuplicate defaultEnv (db (afterA ''A'')) (in_incidentType inputB)
              (in_latitude inputB) (in_longitude inputB) 31000)"
    unfolding inputB_def using afterA_check[of "''A''"] by simp
  have d2: "\<not> isDuplicate (checkForDuplicate defaultEnv (db emptyWorld) (in_incidentType inputB)
              (in_latitude inputB) (in_longitude inputB) 31000)"
    by (simp add: checkForDuplicate_def recentIncidents_def emptyWorld_def)
  from create_status_follows_duplicate_check[where env = defaultEnv and input = inputB
      and now = 31000, OF f1 m] d1
  have a: "\<exists>created w1.
       createIncident defaultEnv cloudUp (afterA ''A'') inputB None ''B'' 31000 = (Inr created, w1)
     \<and> prisma_incident_findUnique (db w1) ''B'' = Some created
     \<and> status created = FLAGGED
     \<and> description created = ''[POTENTIAL DUPLICATE] Smoke near dock''"
    by (simp add: inputB_def)
  from create_status_follows_duplicate_check[where env = defaultEnv and input = inputB
      and now = 31000, OF f2 m] d2
  have b: "\<exists>created w1.
       createIncident defaultEnv cloudUp emptyWorld inputB None ''B'' 31000 = (Inr created, w1)
     \<and> prisma_incident_findUnique (db w1) ''B'' = Some created
     \<and> status created = REPORTED
     \<and> description created = ''Smoke near dock''"
    by (simp add: inputB_def)
  from a b show ?thesis by blast
qed

text \<open>
  C9. With media bytes supplied the upload comes first. When the media store fails,
  Create fails with the error of the upload and leaves the world as it was: no incident,
  no write, no event. When it succeeds, the upload precedes the write of the incident
  row, which carries the URL the store returned; and if that write fails the store is
  unchanged.
\<close>

theorem create_media_before_incident:
  "case uploadToCloudinary upload_stream buffer ''incidents'' of
     Inl e \<Rightarrow>
       createIncident env upload_stream w input (Some buffer) newId now = (Inl e, w)
   | Inr r \<Rightarrow>
       (case createIncident env upload_stream w input (Some buffer) newId now of
          (Inl e, w1) \<Rightarrow>
            db w1 = db w \<and> effects w1 = effects w @ [Upload ''anginat/incidents'' buffer]
        | (Inr created, w1) \<Rightarrow>
            mediaUrl created = Some (secure_url r)
          \<and> incidents (db w1) = incidents (db w) @ [created]
          \<and> take 2 (drop (length (effects w)) (effects w1))
              = [Upload ''anginat/incidents'' buffer, Write ''incident.create''])"
proof (cases "uploadToCloudinary upload_stream buffer ''incidents''")
  case (Inl e)
  then show ?thesis by (simp add: createIncident_def)
next
  case (Inr r)
  let ?w = "w\<lparr>effects := effects w @ [Upload ''anginat/incidents'' buffer]\<rparr>"
  have c: "createIncident env upload_stream w input (Some buffer) newId now
      = persistIncident env ?w input (Some (secure_url r)) newId now"
    using Inr by (simp add: createIncident_def)
  show ?thesis
  proof (cases "prisma_incident_findUnique (db w) newId")
    case None
    then have "prisma_incident_findUnique (db ?w) newId = None" by simp
    from persistIncident_fresh[OF this, of env input "Some (secure_url r)" now]
    show ?thesis using Inr c by auto
  next
    case (Some old)
    then have "persistIncident env ?w input (Some (secure_url r)) newId now
        = (Inl (PrismaClientKnownRequestError ''P2002'' [''id'']), ?w)"
      by (simp add: persistIncident_def prisma_incident_create_def Let_def)
    then show ?thesis using Inr c by simp
  qed
qed

theorem create_media_before_incident_witness:
  "createIncident defaultEnv cloudDown emptyWorld inputB (Some ''JPEG'') ''B'' 31000
     = (Inl (Error ''Cloudinary upload failed: timeout''), emptyWorld)
   \<and> (\<exists>created w1.
        createIncident defaultEnv cloudUp emptyWorld inputB (Some ''JPEG'') ''B'' 31000
          = (Inr created, w1)
      \<and> mediaUrl created = Some ''https://media/anginat/incidents''
      \<and> incidents (db w1) = [created]
      \<and> take 2 (effects w1) = [Upload ''anginat/incidents'' ''JPEG'', Write ''incident.create''])"
proof -
  have down: "uploadToCloudinary cloudDown ''JPEG'' ''incidents''
      = Inl (Error ''Cloudinary upload failed: timeout'')"
    by (simp add: uploadToCloudinary_def cloudDown_def)
  have up: "uploadToCloudinary cloudUp ''JPEG'' ''incidents''
      = Inr \<lparr>secure_url = ''https://media/anginat/incidents'', public_id = ''anginat/incidents''\<rparr>"
    by (simp add: uploadToCloudinary_def cloudUp_def)
  have ok: "\<exists>created w1. createIncident defaultEnv cloudUp emptyWorld inputB (Some ''JPEG'') ''B'' 31000
          = (Inr created, w1)"
    by (simp add: createIncident_def up persistIncident_def prisma_incident_create_def
        prisma_incident_findUnique_def emptyWorld_def Let_def)
  from create_media_before_incident[where upload_stream = cloudDown and buffer = "''JPEG''"
      and env = defaultEnv and w = emptyWorld and input = inputB and newId = "''B''" and now = 31000]
  have a: "createIncident defaultEnv cloudDown emptyWorld inputB (Some ''JPEG'') ''B'' 31000
     = (Inl (Error ''Cloudinary upload failed: timeout''), emptyWorld)"
    by (simp add: down)
  from create_media_before_incident[where upload_stream = cloudUp and buffer = "''JPEG''"
      and env = defaultEnv and w = emptyWorld and input = inputB and newId = "''B''" and now = 31000] ok
  have b: "\<exists>created w1.
        createIncident defaultEnv cloudUp emptyWorld inputB (Some ''JPEG'') ''B'' 31000
          = (Inr created, w1)
      \<and> mediaUrl created = Some ''https://media/anginat/incidents''
      \<and> incidents (db w1) = [created]
      \<and> take 2 (effects w1) = [Upload ''anginat/incidents'' ''JPEG'', Write ''incident.create'']"
    by (auto simp: up emptyWorld_def)
  from a b show ?thesis by blast
qed

text \<open>
  C6, as the code has it. The concrete scenario, from a store with no incidents and the
  default configuration: report A of type FIRE at (40.0, -75.0), description of 12
  characters, no severity given, is stored with status REPORTED and severity MEDIUM.
  Report B of type FIRE at (40.0005, -75.0005), a great-circle distance of about 70 m
  from A (between 69 m and 71 m, within the 200 m of the configuration), created at most
  one minute later, is answered 201 with the message of a flagged report and is stored
  with status FLAGGED and the marked description. The duplicate check made for it returns \<open>duplicateOf = A's id\<close>, of which
  the creation reads \<open>isDuplicate\<close> only: the incident it returns and stores is the record
  below, whose fields hold nothing of A, and all it does is the one write and, with the
  notification sink running, the one event carrying that record.
\<close>

theorem scenario_duplicate_flagged:
  assumes empty: "incidents (db w) = []"
      and lenA: "length descA = 12"
      and lenB: "10 \<le> length descB" "length descB \<le> 2000"
      and time: "tA \<le> tB" "tB \<le> tA + 60000"
      and ids: "idA \<noteq> idB"
  shows "\<exists>a wA b wB.
       createIncidentController defaultEnv upload_stream w
         \<lparr>body_incidentType = ''FIRE'', body_description = descA,
          body_latitude = 40, body_longitude = -75, body_severity = None\<rparr> None idA tA
         = (\<lparr>statusCode = 201, success = True, data = Some a,
             message = ''Incident reported successfully''\<rparr>, wA)
     \<and> id' a = idA \<and> status a = REPORTED \<and> severity a = MEDIUM
     \<and> prisma_incident_findUnique (db wA) idA = Some a
     \<and> 69 < greatCircleDistance 40.0005 (-75.0005) (latitude a) (longitude a)
     \<and> greatCircleDistance 40.0005 (-75.0005) (latitude a) (longitude a) < 71
     \<and> greatCircleDistance 40.0005 (-75.0005) (latitude a) (longitude a)
         \<le> DUPLICATE_DISTANCE_METERS defaultEnv
     \<and> DUPLICATE_DISTANCE_METERS defaultEnv = 200
     \<and> checkForDuplicate defaultEnv (db wA) ''FIRE'' 40.0005 (-75.0005) tB
         = \<lparr>isDuplicate = True, duplicateOf = Some idA, reason = Some (200, 10)\<rparr>
     \<and> createIncidentController defaultEnv upload_stream wA
         \<lparr>body_incidentType = ''FIRE'', body_description = descB,
          body_latitude = 40.0005, body_longitude = -75.0005, body_severity = None\<rparr> None idB tB
         = (\<lparr>statusCode = 201, success = True, data = Some b,
             message = ''Incident reported and flagged as potential duplicate''\<rparr>, wB)
     \<and> b = \<lparr>id' = idB, incidentType = ''FIRE'',
            description = ''[POTENTIAL DUPLICATE] '' @ descB,
            latitude = 40.0005, longitude = -75.0005, severity = MEDIUM, status = FLAGGED,
            upvoteCount = 0, mediaUrl = None, createdAt = tB, updatedAt = tB\<rparr>
     \<and> prisma_incident_findUnique (db wB) idB = Some b
     \<and> incidents (db wB) = [a, b]
     \<and> effects wB = effects wA @ Write ''incident.create'' #
           (if socketService w then [Emit ''incident:new'' None b] else [])"
proof -
  let ?inA = "\<lparr>in_incidentType = ''FIRE'', in_description = descA, in_latitude = 40,
            in_longitude = -75, in_severity = MEDIUM\<rparr>"
  let ?inB = "\<lparr>in_incidentType = ''FIRE'', in_description = descB, in_latitude = 40.0005,
            in_longitude = -75.0005, in_severity = MEDIUM\<rparr>"
  have sA: "createIncidentSchema \<lparr>body_incidentType = ''FIRE'', body_description = descA,
          body_latitude = 40, body_longitude = -75, body_severity = None\<rparr> = Inr ?inA"
    using lenA by (intro schema_FIRE) simp_all
  have sB: "createIncidentSchema \<lparr>body_incidentType = ''FIRE'', body_description = descB,
          body_latitude = 40.0005, body_longitude = -75.0005, body_severity = None\<rparr> = Inr ?inB"
    using lenB by (intro schema_FIRE) simp_all
  have freshA: "prisma_incident_findUnique (db w) idA = None"
    using empty by (simp add: prisma_incident_findUnique_def)
  have noDup: "checkForDuplicate defaultEnv (db w) ''FIRE'' 40 (-75) tA
      = \<lparr>isDuplicate = False, duplicateOf = None, reason = None\<rparr>"
    using empty by (simp add: checkForDuplicate_def recentIncidents_def)
  from persistIncident_fresh[OF freshA, of defaultEnv ?inA None tA] noDup
  obtain a wA where A:
    "persistIncident defaultEnv w ?inA None idA tA = (Inr a, wA)"
    "a = \<lparr>id' = idA, incidentType = ''FIRE'', description = descA, latitude = 40,
          longitude = -75, severity = MEDIUM, status = REPORTED, upvoteCount = 0,
          mediaUrl = None, createdAt = tA, updatedAt = tA\<rparr>"
    "incidents (db wA) = [a]"
    "socketService wA = socketService w"
    using empty by (auto simp: toUpperCase_FIRE)
  have cA: "createIncidentController defaultEnv upload_stream w
         \<lparr>body_incidentType = ''FIRE'', body_description = descA,
          body_latitude = 40, body_longitude = -75, body_severity = None\<rparr> None idA tA
         = (\<lparr>statusCode = 201, success = True, data = Some a,
             message = ''Incident reported successfully''\<rparr>, wA)"
    unfolding createIncidentController_def sA createIncident_def
    using A(1,2) by simp
  have foundA: "prisma_incident_findUnique (db wA) idA = Some a"
    using A(2,3) by (simp add: prisma_incident_findUnique_def)
  have la: "latitude a = 40" and lo: "longitude a = -75" using A(2) by simp_all
  have dist: "greatCircleDistance 40.0005 (-75.0005) (latitude a) (longitude a)
         \<le> DUPLICATE_DISTANCE_METERS defaultEnv"
    unfolding la lo calculateDistance_great_circle[symmetric]
    using scenario_distance by (simp add: defaultEnv_def)
  have thr: "DUPLICATE_DISTANCE_METERS defaultEnv = 200" by (simp add: defaultEnv_def)
  have near: "69 < greatCircleDistance 40.0005 (-75.0005) (latitude a) (longitude a)"
    "greatCircleDistance 40.0005 (-75.0005) (latitude a) (longitude a) < 71"
    unfolding la lo calculateDistance_great_circle[symmetric]
    by (rule scenario_distance_bounds)+
  have dup: "checkForDuplicate defaultEnv (db wA) ''FIRE'' 40.0005 (-75.0005) tB
         = \<lparr>isDuplicate = True, duplicateOf = Some (id' a), reason = Some (200, 10)\<rparr>"
    using time A(2) FIRE_FIRE by (intro checkForDuplicate_scenario(2)[OF A(3)]) simp_all
  have freshB: "prisma_incident_findUnique (db wA) idB = None"
    using A(2,3) ids by (simp add: prisma_incident_findUnique_def)
  from persistIncident_fresh[OF freshB, of defaultEnv ?inB None tB] dup A(4)
  obtain b wB where B:
    "persistIncident defaultEnv wA ?inB None idB tB = (Inr b, wB)"
    "b = \<lparr>id' = idB, incidentType = ''FIRE'',
            description = ''[POTENTIAL DUPLICATE] '' @ descB,
            latitude = 40.0005, longitude = -75.0005, severity = MEDIUM, status = FLAGGED,
            upvoteCount = 0, mediaUrl = None, createdAt = tB, updatedAt = tB\<rparr>"
    "incidents (db wB) = incidents (db wA) @ [b]"
    "effects wB = effects wA @ Write ''incident.create'' #
           (if socketService w then [Emit ''incident:new'' None b] else [])"
    by (auto simp: toUpperCase_FIRE)
  have cB: "createIncidentController defaultEnv upload_stream wA
         \<lparr>body_incidentType = ''FIRE'', body_description = descB,
          body_latitude = 40.0005, body_longitude = -75.0005, body_severity = None\<rparr> None idB tB
         = (\<lparr>statusCode = 201, success = True, data = Some b,
             message = ''Incident reported and flagged as potential duplicate''\<rparr>, wB)"
    unfolding createIncidentController_def sB createIncident_def
    using B(1,2) by simp
  have idb: "id' b = idB" using B(2) by simp
  have foundB: "prisma_incident_findUnique (db wB) idB = Some b"
    by (rule findUnique_snoc[OF freshB B(3) idb])
  have rows: "incidents (db wB) = [a, b]" using B(3) A(3) by simp
  have ida: "id' a = idA \<and> status a = REPORTED \<and> severity a = MEDIUM" using A(2) by simp
  from dup ida have dup': "checkForDuplicate defaultEnv (db wA) ''FIRE'' 40.0005 (-75.0005) tB
         = \<lparr>isDuplicate = True, duplicateOf = Some idA, reason = Some (200, 10)\<rparr>" by simp
  from cA ida foundA near dist thr dup' cB B(2) foundB rows B(4) show ?thesis by blast
qed

theorem scenario_duplicate_flagged_witness:
  "\<exists>a wA wB.
       createIncidentController defaultEnv cloudUp emptyWorld bodyA None ''A'' 1000
         = (\<lparr>statusCode = 201, success = True, data = Some a,
             message = ''Incident reported successfully''\<rparr>, wA)
     \<and> id' a = ''A'' \<and> status a = REPORTED \<and> severity a = MEDIUM
     \<and> 69 < greatCircleDistance 40.0005 (-75.0005) (latitude a) (longitude a)
     \<and> greatCircleDistance 40.0005 (-75.0005) (latitude a) (longitude a) < 71
     \<and> checkForDuplicate defaultEnv (db wA) ''FIRE'' 40.0005 (-75.0005) 31000
         = \<lparr>isDuplicate = True, duplicateOf = Some ''A'', reason = Some (200, 10)\<rparr>
     \<and> createIncidentController defaultEnv cloudUp wA bodyB None ''B'' 31000
         = (\<lparr>statusCode = 201, success = True, data = Some flaggedB,
             message = ''Incident reported and flagged as potential duplicate''\<rparr>, wB)
     \<and> incidents (db wB) = [a, flaggedB]
     \<and> effects wB = effects wA @ [Write ''incident.create'', Emit ''incident:new'' None flaggedB]"
proof -
  have e: "incidents (db emptyWorld) = []" by (simp add: emptyWorld_def)
  have l: "length ''Fire at dock'' = 12" "10 \<le> length ''Smoke near dock''"
    "length ''Smoke near dock'' \<le> 2000" by simp_all
  have t: "(1000::int) \<le> 31000" "(31000::int) \<le> 1000 + 60000" by simp_all
  have i: "''A'' \<noteq> ''B''" by simp
  have s: "socketService emptyWorld" by (simp add: emptyWorld_def)
  from scenario_duplicate_flagged[where upload_stream = cloudUp, OF e l t i]
  show ?thesis unfolding bodyA_def bodyB_def flaggedB_def using s by fastforce
qed

text \<open>
  The claim as stated fails in its last part: nothing the creation of B gives identifies
  A. Whether A was created with id A1 or with id A2, the creation of B is answered with
  the same response, stores the same row and publishes the same event, while the
  duplicate check inside it had \<open>duplicateOf = A1\<close> in the one case and \<open>duplicateOf = A2\<close>
  in the other.
\<close>

theorem scenario_original_not_identified:
  "duplicateOf (checkForDuplicate defaultEnv (db (afterA ''A1'')) ''FIRE'' 40.0005 (-75.0005) 31000)
     = Some ''A1''
   \<and> duplicateOf (checkForDuplicate defaultEnv (db (afterA ''A2'')) ''FIRE'' 40.0005 (-75.0005) 31000)
     = Some ''A2''
   \<and> fst (createB ''A1'')
     = \<lparr>statusCode = 201, success = True, data = Some flaggedB,
        message = ''Incident reported and flagged as potential duplicate''\<rparr>
   \<and> fst (createB ''A2'') = fst (createB ''A1'')
   \<and> last (incidents (db (snd (createB ''A1'')))) = flaggedB
   \<and> last (incidents (db (snd (createB ''A2'')))) = flaggedB
   \<and> drop (length (effects (afterA ''A1''))) (effects (snd (createB ''A1'')))
     = [Write ''incident.create'', Emit ''incident:new'' None flaggedB]
   \<and> drop (length (effects (afterA ''A2''))) (effects (snd (createB ''A2'')))
     = [Write ''incident.create'', Emit ''incident:new'' None flaggedB]"
proof -
  have 1: "''A1'' \<noteq> ''B''" and 2: "''A2'' \<noteq> ''B''" by simp_all
  show ?thesis
    unfolding createB_result[OF 1] createB_result[OF 2] afterA_check by simp
qed

section \<open>The duplicate detector\<close>


text \<open>
  At a pole the longitude delta is the latitude delta over the small cosine of the double
  computation: with a distance of 0 the box is the point itself, and an incident at the
  same coordinates is inside it.
\<close>

lemma duplicateWhere_pole:
  assumes "DUPLICATE_DISTANCE_METERS env = 0"
  shows "duplicateWhere env ty 90 lon now i =
     (equalsInsensitive (incidentType i) ty
      \<and> Date (of_int now - DUPLICATE_TIME_MINUTES env * 60 * 1000) \<le> createdAt i
      \<and> latitude i = 90 \<and> longitude i = lon
      \<and> status i \<noteq> RESOLVED \<and> status i \<noteq> FLAGGED)"
  using assms by (auto simp: duplicateWhere_def cosLatitude_def Let_def)






section \<open>Status updates\<close>

lemma adminNote_create_result:
  assumes "prisma_incident_findUnique s (note_incidentId n) = Some i"
  shows "prisma_adminNote_create s n =
     (if note_userId n \<in> set (users s) then Inr (s\<lparr>adminNotes := adminNotes s @ [n]\<rparr>)
      else Inl (PrismaClientKnownRequestError ''P2003'' []))"
  using assms by (simp add: prisma_adminNote_create_def)

text \<open>
  C10. \<open>updateIncidentStatus\<close> with a note, on an existing incident, is not atomic. The
  status and \<open>updatedAt\<close> are committed first. When the insert of the AdminNote then
  fails (here: its author is not a user), the call fails, the incident keeps the new
  status, no note exists and no event is published. When the insert succeeds, the note is
  written after the status and the update event is emitted last.
\<close>

theorem updateStatus_not_atomic:
  assumes found: "prisma_incident_findUnique (db w) ident = Some i"
  shows "let i1 = i\<lparr>status := newStatus, updatedAt := now\<rparr>;
             n = \<lparr>note_incidentId = ident, note_userId = adminId,
                  note_text = ''Status changed to '' @ statusName newStatus @ '': '' @ (c # cs)\<rparr>
         in if adminId \<in> set (users (db w)) then
              \<exists>w1. updateIncidentStatus w ident newStatus adminId (Some (c # cs)) now = (Inr i1, w1)
                \<and> prisma_incident_findUnique (db w1) ident = Some i1
                \<and> adminNotes (db w1) = adminNotes (db w) @ [n]
                \<and> effects w1 = effects w @ [Write ''incident.update'', Write ''adminNote.create'']
                     @ (if socketService w
                        then [Emit ''incident:update'' None i1,
                              Emit ''incident:updated'' (Some (''incident:'' @ ident)) i1]
                        else [])
            else
              \<exists>w1. updateIncidentStatus w ident newStatus adminId (Some (c # cs)) now
                     = (Inl (PrismaClientKnownRequestError ''P2003'' []), w1)
                \<and> prisma_incident_findUnique (db w1) ident = Some i1
                \<and> adminNotes (db w1) = adminNotes (db w)
                \<and> effects w1 = effects w @ [Write ''incident.update'']
                \<and> published w1 = published w"
proof -
  let ?f = "\<lambda>i. i\<lparr>status := newStatus, updatedAt := now\<rparr>"
  let ?n = "\<lparr>note_incidentId = ident, note_userId = adminId,
             note_text = ''Status changed to '' @ statusName newStatus @ '': '' @ (c # cs)\<rparr>"
  have idi: "id' i = ident" by (rule findUnique_id[OF found])
  have "id' (?f i) = id' i" by simp
  from update_found[where f = ?f, OF found this] obtain s1 where s1:
    "prisma_incident_update (db w) ident ?f = Inr (s1, ?f i)"
    "prisma_incident_findUnique s1 ident = Some (?f i)"
    "users s1 = users (db w)" "adminNotes s1 = adminNotes (db w)"
    by blast
  let ?w1 = "commit [''incident.update''] s1 w"
  have d1: "db ?w1 = s1" by (simp add: commit_def)
  have ins: "prisma_adminNote_create s1 ?n =
     (if adminId \<in> set (users (db w)) then Inr (s1\<lparr>adminNotes := adminNotes s1 @ [?n]\<rparr>)
      else Inl (PrismaClientKnownRequestError ''P2003'' []))"
    using adminNote_create_result[of s1 ?n] s1(2,3) by simp
  show ?thesis
  proof (cases "adminId \<in> set (users (db w))")
    case True
    let ?s2 = "s1\<lparr>adminNotes := adminNotes s1 @ [?n]\<rparr>"
    let ?w2 = "notifyUpdate (commit [''adminNote.create''] ?s2 ?w1) (?f i)"
    have call: "updateIncidentStatus w ident newStatus adminId (Some (c # cs)) now
        = (Inr (?f i), ?w2)"
      using True ins by (simp add: updateIncidentStatus_def s1(1) d1)
    have "prisma_incident_findUnique (db ?w2) ident = Some (?f i)"
      using s1(2)
      by (simp add: notifyUpdate_def emitIncidentUpdate_def commit_def
          prisma_incident_findUnique_def)
    moreover have "adminNotes (db ?w2) = adminNotes (db w) @ [?n]"
      using s1(4) by (simp add: notifyUpdate_def emitIncidentUpdate_def commit_def)
    moreover have "effects ?w2 = effects w @ [Write ''incident.update'', Write ''adminNote.create'']
                     @ (if socketService w
                        then [Emit ''incident:update'' None (?f i),
                              Emit ''incident:updated'' (Some (''incident:'' @ ident)) (?f i)]
                        else [])"
      using idi by (simp add: notifyUpdate_def emitIncidentUpdate_def commit_def)
    ultimately show ?thesis using True call by (simp add: Let_def)
  next
    case False
    have call: "updateIncidentStatus w ident newStatus adminId (Some (c # cs)) now
        = (Inl (PrismaClientKnownRequestError ''P2003'' []), ?w1)"
      using False ins by (simp add: updateIncidentStatus_def s1(1) d1)
    have "effects ?w1 = effects w @ [Write ''incident.update'']" by (simp add: commit_def)
    with False call d1 s1 show ?thesis by (simp add: Let_def published_commit)
  qed
qed

theorem updateStatus_not_atomic_witness:
  "\<exists>w1. updateIncidentStatus (town 0) ''i1'' IN_PROGRESS ''ghost'' (Some ''checked'') 2000
           = (Inl (PrismaClientKnownRequestError ''P2003'' []), w1)
     \<and> prisma_incident_findUnique (db w1) ''i1''
           = Some ((pothole 0)\<lparr>status := IN_PROGRESS, updatedAt := 2000\<rparr>)
     \<and> adminNotes (db w1) = []
     \<and> effects w1 = [Write ''incident.update'']
     \<and> published w1 = []"
  using updateStatus_not_atomic[where w = "town 0" and adminId = "''ghost''"
      and newStatus = IN_PROGRESS and now = 2000 and c = "CHR ''c''" and cs = "''hecked''",
      OF town_found]
  by (simp add: Let_def) (simp add: town_def published_def)

section \<open>The bounding box of List\<close>

lemma set_orderBy: "set (orderBy k ord rows) = set rows"
  by (cases ord) simp_all

lemma listed_matches:
  assumes "r \<in> set (page_incidents (getIncidents s q))"
  shows "listWhere q (fst r) \<and> fst r \<in> set (incidents s)"
proof -
  from assms obtain i where i: "r = withCount s i"
    "i \<in> set (take (limit q) (drop ((page q - 1) * limit q)
            (orderBy (sortBy q) (sortOrder q) (filter (listWhere q) (incidents s)))))"
    by (auto simp: getIncidents_def Let_def)
  from i(2) have "i \<in> set (orderBy (sortBy q) (sortOrder q) (filter (listWhere q) (incidents s)))"
    by (blast dest: in_set_takeD in_set_dropD)
  then have "i \<in> set (filter (listWhere q) (incidents s))" by (simp only: set_orderBy)
  with i(1) show ?thesis by (simp add: withCount_def)
qed

lemma listWhere_lone_lat:
  "minLat q = None \<or> maxLat q = None \<Longrightarrow>
   listWhere (q\<lparr>minLat := None, maxLat := None\<rparr>) = listWhere q"
  by (auto simp: listWhere_def fun_eq_iff split: option.splits)

lemma listWhere_lone_lng:
  "minLng q = None \<or> maxLng q = None \<Longrightarrow>
   listWhere (q\<lparr>minLng := None, maxLng := None\<rparr>) = listWhere q"
  by (auto simp: listWhere_def fun_eq_iff split: option.splits)

lemma town_list_both:
  "page_incidents (getIncidents (db (town 0)) between30and45) = [(pothole 0, 0, 0)]"
  by (simp add: getIncidents_def between30and45_def town_def pothole_def listWhere_def
      withCount_def)

text \<open>
  C7, as the code has it. The box filter of List works per axis and needs both bounds of
  the axis: when minLat and maxLat are both supplied every returned incident lies between
  them (and likewise for minLng and maxLng); when one bound of an axis is missing, the
  other bound of that axis is ignored, and the result is the one of the query without
  either.
\<close>

theorem list_box_needs_both_bounds:
  "(\<forall>r \<in> set (page_incidents (getIncidents s q)).
      (\<forall>lo hi. minLat q = Some lo \<and> maxLat q = Some hi
          \<longrightarrow> lo \<le> latitude (fst r) \<and> latitude (fst r) \<le> hi)
    \<and> (\<forall>lo hi. minLng q = Some lo \<and> maxLng q = Some hi
          \<longrightarrow> lo \<le> longitude (fst r) \<and> longitude (fst r) \<le> hi))
   \<and> (minLat q = None \<or> maxLat q = None
        \<longrightarrow> getIncidents s q = getIncidents s (q\<lparr>minLat := None, maxLat := None\<rparr>))
   \<and> (minLng q = None \<or> maxLng q = None
        \<longrightarrow> getIncidents s q = getIncidents s (q\<lparr>minLng := None, maxLng := None\<rparr>))"
proof (intro conjI ballI allI impI)
  fix r lo hi
  assume r: "r \<in> set (page_incidents (getIncidents s q))"
    and b: "minLat q = Some lo \<and> maxLat q = Some hi"
  from listed_matches[OF r] b show "lo \<le> latitude (fst r)" "latitude (fst r) \<le> hi"
    by (simp_all add: listWhere_def)
next
  fix r lo hi
  assume r: "r \<in> set (page_incidents (getIncidents s q))"
    and b: "minLng q = Some lo \<and> maxLng q = Some hi"
  from listed_matches[OF r] b show "lo \<le> longitude (fst r)" "longitude (fst r) \<le> hi"
    by (simp_all add: listWhere_def)
next
  assume "minLat q = None \<or> maxLat q = None"
  from listWhere_lone_lat[OF this]
  show "getIncidents s q = getIncidents s (q\<lparr>minLat := None, maxLat := None\<rparr>)"
    by (simp add: getIncidents_def)
next
  assume "minLng q = None \<or> maxLng q = None"
  from listWhere_lone_lng[OF this]
  show "getIncidents s q = getIncidents s (q\<lparr>minLng := None, maxLng := None\<rparr>)"
    by (simp add: getIncidents_def)
qed

theorem list_box_needs_both_bounds_witness:
  "page_incidents (getIncidents (db (town 0)) between30and45) = [(pothole 0, 0, 0)]
   \<and> 30 \<le> latitude (pothole 0) \<and> latitude (pothole 0) \<le> 45
   \<and> getIncidents (db (town 0)) northOf50
       = getIncidents (db (town 0)) (northOf50\<lparr>minLat := None, maxLat := None\<rparr>)"
proof -
  note t = list_box_needs_both_bounds[where s = "db (town 0)" and q = between30and45]
  have "(pothole 0, 0, 0) \<in> set (page_incidents (getIncidents (db (town 0)) between30and45))"
    by (simp add: town_list_both)
  with t have "30 \<le> latitude (fst (pothole 0, 0::nat, 0::nat))
      \<and> latitude (fst (pothole 0, 0::nat, 0::nat)) \<le> 45"
    by (simp add: between30and45_def del: fst_conv)
  moreover have "getIncidents (db (town 0)) northOf50
       = getIncidents (db (town 0)) (northOf50\<lparr>minLat := None, maxLat := None\<rparr>)"
    using list_box_needs_both_bounds[where s = "db (town 0)" and q = northOf50]
    by (simp add: northOf50_def)
  ultimately show ?thesis by (simp add: town_list_both)
qed

text \<open>
  The claim as stated fails: the query supplies minLat = 50 alone, and the incident at
  latitude 40 is returned.
\<close>

theorem list_lone_bound_counterexample:
  "minLat northOf50 = Some 50
   \<and> page_incidents (getIncidents (db (town 0)) northOf50) = [(pothole 0, 0, 0)]
   \<and> latitude (pothole 0) = 40 \<and> \<not> 50 \<le> latitude (pothole 0)"
  by (simp add: getIncidents_def northOf50_def town_def pothole_def listWhere_def withCount_def)

end
